theory Spec2Isabelle
  imports Complex_Main "HOL-Library.Word"
begin

section \<open>JavaScript strings\<close>

text \<open>
  A JavaScript string is a sequence of UTF-16 code units. String literals of the source
  that are plain ASCII are written \<open>js ''...''\<close>; the Korean tag literals are written as
  their code units.
\<close>

type_synonym jschar = "16 word"
type_synonym jsstring = "jschar list"

definition js :: "string \<Rightarrow> jsstring" where
  "js s = map of_char s"

definition LF :: jschar where "LF = 0x0A"
definition CR :: jschar where "CR = 0x0D"
definition COMMA :: jschar where "COMMA = 0x2C"
definition DQUOTE :: jschar where "DQUOTE = 0x22"
definition SPACE :: jschar where "SPACE = 0x20"

text \<open>
  \<open>String.prototype.trim\<close> removes the code units of WhiteSpace and LineTerminator
  (ECMA-262, 22.1.3.32) from both ends.
\<close>

definition isWhiteSpace :: "jschar \<Rightarrow> bool" where
  "isWhiteSpace c \<longleftrightarrow>
     c = 0x09 \<or> c = 0x0A \<or> c = 0x0B \<or> c = 0x0C \<or> c = 0x0D \<or> c = 0x20 \<or> c = 0xA0 \<or>
     c = 0x1680 \<or> (0x2000 \<le> c \<and> c \<le> 0x200A) \<or> c = 0x2028 \<or> c = 0x2029 \<or>
     c = 0x202F \<or> c = 0x205F \<or> c = 0x3000 \<or> c = 0xFEFF"

definition trim :: "jsstring \<Rightarrow> jsstring" where
  "trim s = rev (dropWhile isWhiteSpace (rev (dropWhile isWhiteSpace s)))"

text \<open>
  \<open>String.prototype.toLowerCase\<close> (ECMA-262, 22.1.3.28): the string is read as code
  points (a lead surrogate followed by a trail surrogate is one code point), every code
  point is replaced by its lower-case mapping of the Unicode Character Database, with the
  mappings of SpecialCasing that depend on no language (\<open>U+0130\<close> becomes \<open>U+0069
  U+0307\<close>; \<open>U+03A3\<close> becomes the final sigma \<open>U+03C2\<close> when a cased letter comes
  before it and none comes after it, \<open>U+03C3\<close> otherwise), and the code points are
  written back as code units. The tables are those of Unicode 14.0.
\<close>

definition isLeadSurrogate :: "jschar \<Rightarrow> bool" where
  "isLeadSurrogate c \<longleftrightarrow> 0xD800 \<le> c \<and> c \<le> 0xDBFF"

definition isTrailSurrogate :: "jschar \<Rightarrow> bool" where
  "isTrailSurrogate c \<longleftrightarrow> 0xDC00 \<le> c \<and> c \<le> 0xDFFF"

fun StringToCodePoints :: "jsstring \<Rightarrow> nat list" where
  "StringToCodePoints [] = []"
| "StringToCodePoints [c] = [unat c]"
| "StringToCodePoints (c # d # cs) =
     (if isLeadSurrogate c \<and> isTrailSurrogate d
      then (0x10000 + (unat c - 0xD800) * 0x400 + (unat d - 0xDC00)) # StringToCodePoints cs
      else unat c # StringToCodePoints (d # cs))"

definition codeUnits :: "nat \<Rightarrow> jsstring" where
  "codeUnits cp =
     (if cp < 0x10000 then [of_nat cp]
      else [of_nat (0xD800 + (cp - 0x10000) div 0x400),
            of_nat (0xDC00 + (cp - 0x10000) mod 0x400)])"

definition CodePointsToString :: "nat list \<Rightarrow> jsstring" where
  "CodePointsToString cps = concat (map codeUnits cps)"

text \<open>
  The simple lower-case mappings above Basic Latin, as ranges \<open>(lo, hi, stride, delta)\<close>:
  the code points \<open>lo, lo + stride, ..., hi\<close> are mapped by adding \<open>delta\<close>.
\<close>

definition lowerRanges :: "(nat \<times> nat \<times> nat \<times> int) list" where
  "lowerRanges =
     [
      (0xC0, 0xD6, 1, 32), (0xD8, 0xDE, 1, 32), (0x100, 0x12E, 2, 1),
      (0x132, 0x136, 2, 1), (0x139, 0x147, 2, 1), (0x14A, 0x176, 2, 1),
      (0x178, 0x178, 1, -121), (0x179, 0x17D, 2, 1), (0x181, 0x181, 1, 210),
      (0x182, 0x184, 2, 1), (0x186, 0x186, 1, 206), (0x187, 0x187, 1, 1),
      (0x189, 0x18A, 1, 205), (0x18B, 0x18B, 1, 1), (0x18E, 0x18E, 1, 79),
      (0x18F, 0x18F, 1, 202), (0x190, 0x190, 1, 203), (0x191, 0x191, 1, 1),
      (0x193, 0x193, 1, 205), (0x194, 0x194, 1, 207), (0x196, 0x196, 1, 211),
      (0x197, 0x197, 1, 209), (0x198, 0x198, 1, 1), (0x19C, 0x19C, 1, 211),
      (0x19D, 0x19D, 1, 213), (0x19F, 0x19F, 1, 214), (0x1A0, 0x1A4, 2, 1),
      (0x1A6, 0x1A6, 1, 218), (0x1A7, 0x1A7, 1, 1), (0x1A9, 0x1A9, 1, 218),
      (0x1AC, 0x1AC, 1, 1), (0x1AE, 0x1AE, 1, 218), (0x1AF, 0x1AF, 1, 1),
      (0x1B1, 0x1B2, 1, 217), (0x1B3, 0x1B5, 2, 1), (0x1B7, 0x1B7, 1, 219),
      (0x1B8, 0x1B8, 1, 1), (0x1BC, 0x1BC, 1, 1), (0x1C4, 0x1C4, 1, 2),
      (0x1C5, 0x1C5, 1, 1), (0x1C7, 0x1C7, 1, 2), (0x1C8, 0x1C8, 1, 1),
      (0x1CA, 0x1CA, 1, 2), (0x1CB, 0x1DB, 2, 1), (0x1DE, 0x1EE, 2, 1),
      (0x1F1, 0x1F1, 1, 2), (0x1F2, 0x1F4, 2, 1), (0x1F6, 0x1F6, 1, -97),
      (0x1F7, 0x1F7, 1, -56), (0x1F8, 0x21E, 2, 1), (0x220, 0x220, 1, -130),
      (0x222, 0x232, 2, 1), (0x23A, 0x23A, 1, 10795), (0x23B, 0x23B, 1, 1),
      (0x23D, 0x23D, 1, -163), (0x23E, 0x23E, 1, 10792), (0x241, 0x241, 1, 1),
      (0x243, 0x243, 1, -195), (0x244, 0x244, 1, 69), (0x245, 0x245, 1, 71),
      (0x246, 0x24E, 2, 1), (0x370, 0x372, 2, 1), (0x376, 0x376, 1, 1),
      (0x37F, 0x37F, 1, 116), (0x386, 0x386, 1, 38), (0x388, 0x38A, 1, 37),
      (0x38C, 0x38C, 1, 64), (0x38E, 0x38F, 1, 63), (0x391, 0x3A1, 1, 32),
      (0x3A3, 0x3AB, 1, 32), (0x3CF, 0x3CF, 1, 8), (0x3D8, 0x3EE, 2, 1),
      (0x3F4, 0x3F4, 1, -60), (0x3F7, 0x3F7, 1, 1), (0x3F9, 0x3F9, 1, -7),
      (0x3FA, 0x3FA, 1, 1), (0x3FD, 0x3FF, 1, -130), (0x400, 0x40F, 1, 80),
      (0x410, 0x42F, 1, 32), (0x460, 0x480, 2, 1), (0x48A, 0x4BE, 2, 1),
      (0x4C0, 0x4C0, 1, 15), (0x4C1, 0x4CD, 2, 1), (0x4D0, 0x52E, 2, 1),
      (0x531, 0x556, 1, 48), (0x10A0, 0x10C5, 1, 7264), (0x10C7, 0x10C7, 1, 7264),
      (0x10CD, 0x10CD, 1, 7264), (0x13A0, 0x13EF, 1, 38864), (0x13F0, 0x13F5, 1, 8),
      (0x1C90, 0x1CBA, 1, -3008), (0x1CBD, 0x1CBF, 1, -3008), (0x1E00, 0x1E94, 2, 1),
      (0x1E9E, 0x1E9E, 1, -7615), (0x1EA0, 0x1EFE, 2, 1), (0x1F08, 0x1F0F, 1, -8),
      (0x1F18, 0x1F1D, 1, -8), (0x1F28, 0x1F2F, 1, -8), (0x1F38, 0x1F3F, 1, -8),
      (0x1F48, 0x1F4D, 1, -8), (0x1F59, 0x1F5F, 2, -8), (0x1F68, 0x1F6F, 1, -8),
      (0x1F88, 0x1F8F, 1, -8), (0x1F98, 0x1F9F, 1, -8), (0x1FA8, 0x1FAF, 1, -8),
      (0x1FB8, 0x1FB9, 1, -8), (0x1FBA, 0x1FBB, 1, -74), (0x1FBC, 0x1FBC, 1, -9),
      (0x1FC8, 0x1FCB, 1, -86), (0x1FCC, 0x1FCC, 1, -9), (0x1FD8, 0x1FD9, 1, -8),
      (0x1FDA, 0x1FDB, 1, -100), (0x1FE8, 0x1FE9, 1, -8), (0x1FEA, 0x1FEB, 1, -112),
      (0x1FEC, 0x1FEC, 1, -7), (0x1FF8, 0x1FF9, 1, -128), (0x1FFA, 0x1FFB, 1, -126),
      (0x1FFC, 0x1FFC, 1, -9), (0x2126, 0x2126, 1, -7517), (0x212A, 0x212A, 1, -8383),
      (0x212B, 0x212B, 1, -8262), (0x2132, 0x2132, 1, 28), (0x2160, 0x216F, 1, 16),
      (0x2183, 0x2183, 1, 1), (0x24B6, 0x24CF, 1, 26), (0x2C00, 0x2C2F, 1, 48),
      (0x2C60, 0x2C60, 1, 1), (0x2C62, 0x2C62, 1, -10743), (0x2C63, 0x2C63, 1, -3814),
      (0x2C64, 0x2C64, 1, -10727), (0x2C67, 0x2C6B, 2, 1), (0x2C6D, 0x2C6D, 1, -10780),
      (0x2C6E, 0x2C6E, 1, -10749), (0x2C6F, 0x2C6F, 1, -10783), (0x2C70, 0x2C70, 1, -10782),
      (0x2C72, 0x2C72, 1, 1), (0x2C75, 0x2C75, 1, 1), (0x2C7E, 0x2C7F, 1, -10815),
      (0x2C80, 0x2CE2, 2, 1), (0x2CEB, 0x2CED, 2, 1), (0x2CF2, 0x2CF2, 1, 1),
      (0xA640, 0xA66C, 2, 1), (0xA680, 0xA69A, 2, 1), (0xA722, 0xA72E, 2, 1),
      (0xA732, 0xA76E, 2, 1), (0xA779, 0xA77B, 2, 1), (0xA77D, 0xA77D, 1, -35332),
      (0xA77E, 0xA786, 2, 1), (0xA78B, 0xA78B, 1, 1), (0xA78D, 0xA78D, 1, -42280),
      (0xA790, 0xA792, 2, 1), (0xA796, 0xA7A8, 2, 1), (0xA7AA, 0xA7AA, 1, -42308),
      (0xA7AB, 0xA7AB, 1, -42319), (0xA7AC, 0xA7AC, 1, -42315), (0xA7AD, 0xA7AD, 1, -42305),
      (0xA7AE, 0xA7AE, 1, -42308), (0xA7B0, 0xA7B0, 1, -42258), (0xA7B1, 0xA7B1, 1, -42282),
      (0xA7B2, 0xA7B2, 1, -42261), (0xA7B3, 0xA7B3, 1, 928), (0xA7B4, 0xA7C2, 2, 1),
      (0xA7C4, 0xA7C4, 1, -48), (0xA7C5, 0xA7C5, 1, -42307), (0xA7C6, 0xA7C6, 1, -35384),
      (0xA7C7, 0xA7C9, 2, 1), (0xA7D0, 0xA7D0, 1, 1), (0xA7D6, 0xA7D8, 2, 1),
      (0xA7F5, 0xA7F5, 1, 1), (0xFF21, 0xFF3A, 1, 32), (0x10400, 0x10427, 1, 40),
      (0x104B0, 0x104D3, 1, 40), (0x10570, 0x1057A, 1, 39), (0x1057C, 0x1058A, 1, 39),
      (0x1058C, 0x10592, 1, 39), (0x10594, 0x10595, 1, 39), (0x10C80, 0x10CB2, 1, 64),
      (0x118A0, 0x118BF, 1, 32), (0x16E40, 0x16E5F, 1, 32), (0x1E900, 0x1E921, 1, 34)
     ]"

text \<open>The code points with the property Case_Ignorable.\<close>

definition caseIgnorableRanges :: "(nat \<times> nat) list" where
  "caseIgnorableRanges =
     [
      (0x27, 0x27), (0x2E, 0x2E), (0x3A, 0x3A), (0x5E, 0x5E), (0x60, 0x60),
      (0xA8, 0xA8), (0xAD, 0xAD), (0xAF, 0xAF), (0xB4, 0xB4), (0xB7, 0xB8),
      (0x2B0, 0x36F), (0x374, 0x375), (0x37A, 0x37A), (0x384, 0x385), (0x387, 0x387),
      (0x483, 0x489), (0x559, 0x559), (0x55F, 0x55F), (0x591, 0x5BD), (0x5BF, 0x5BF),
      (0x5C1, 0x5C2), (0x5C4, 0x5C5), (0x5C7, 0x5C7), (0x5F4, 0x5F4), (0x600, 0x605),
      (0x610, 0x61A), (0x61C, 0x61C), (0x640, 0x640), (0x64B, 0x65F), (0x670, 0x670),
      (0x6D6, 0x6DD), (0x6DF, 0x6E8), (0x6EA, 0x6ED), (0x70F, 0x70F), (0x711, 0x711),
      (0x730, 0x74A), (0x7A6, 0x7B0), (0x7EB, 0x7F5), (0x7FA, 0x7FA), (0x7FD, 0x7FD),
      (0x816, 0x82D), (0x859, 0x85B), (0x888, 0x888), (0x890, 0x891), (0x898, 0x89F),
      (0x8C9, 0x902), (0x93A, 0x93A), (0x93C, 0x93C), (0x941, 0x948), (0x94D, 0x94D),
      (0x951, 0x957), (0x962, 0x963), (0x971, 0x971), (0x981, 0x981), (0x9BC, 0x9BC),
      (0x9C1, 0x9C4), (0x9CD, 0x9CD), (0x9E2, 0x9E3), (0x9FE, 0x9FE), (0xA01, 0xA02),
      (0xA3C, 0xA3C), (0xA41, 0xA42), (0xA47, 0xA48), (0xA4B, 0xA4D), (0xA51, 0xA51),
      (0xA70, 0xA71), (0xA75, 0xA75), (0xA81, 0xA82), (0xABC, 0xABC), (0xAC1, 0xAC5),
      (0xAC7, 0xAC8), (0xACD, 0xACD), (0xAE2, 0xAE3), (0xAFA, 0xAFF), (0xB01, 0xB01),
      (0xB3C, 0xB3C), (0xB3F, 0xB3F), (0xB41, 0xB44), (0xB4D, 0xB4D), (0xB55, 0xB56),
      (0xB62, 0xB63), (0xB82, 0xB82), (0xBC0, 0xBC0), (0xBCD, 0xBCD), (0xC00, 0xC00),
      (0xC04, 0xC04), (0xC3C, 0xC3C), (0xC3E, 0xC40), (0xC46, 0xC48), (0xC4A, 0xC4D),
      (0xC55, 0xC56), (0xC62, 0xC63), (0xC81, 0xC81), (0xCBC, 0xCBC), (0xCBF, 0xCBF),
      (0xCC6, 0xCC6), (0xCCC, 0xCCD), (0xCE2, 0xCE3), (0xD00, 0xD01), (0xD3B, 0xD3C),
      (0xD41, 0xD44), (0xD4D, 0xD4D), (0xD62, 0xD63), (0xD81, 0xD81), (0xDCA, 0xDCA),
      (0xDD2, 0xDD4), (0xDD6, 0xDD6), (0xE31, 0xE31), (0xE34, 0xE3A), (0xE46, 0xE4E),
      (0xEB1, 0xEB1), (0xEB4, 0xEBC), (0xEC6, 0xEC6), (0xEC8, 0xECD), (0xF18, 0xF19),
      (0xF35, 0xF35), (0xF37, 0xF37), (0xF39, 0xF39), (0xF71, 0xF7E), (0xF80, 0xF84),
      (0xF86, 0xF87), (0xF8D, 0xF97), (0xF99, 0xFBC), (0xFC6, 0xFC6), (0x102D, 0x1030),
      (0x1032, 0x1037), (0x1039, 0x103A), (0x103D, 0x103E), (0x1058, 0x1059), (0x105E, 0x1060),
      (0x1071, 0x1074), (0x1082, 0x1082), (0x1085, 0x1086), (0x108D, 0x108D), (0x109D, 0x109D),
      (0x10FC, 0x10FC), (0x135D, 0x135F), (0x1712, 0x1714), (0x1732, 0x1733), (0x1752, 0x1753),
      (0x1772, 0x1773), (0x17B4, 0x17B5), (0x17B7, 0x17BD), (0x17C6, 0x17C6), (0x17C9, 0x17D3),
      (0x17D7, 0x17D7), (0x17DD, 0x17DD), (0x180B, 0x180F), (0x1843, 0x1843), (0x1885, 0x1886),
      (0x18A9, 0x18A9), (0x1920, 0x1922), (0x1927, 0x1928), (0x1932, 0x1932), (0x1939, 0x193B),
      (0x1A17, 0x1A18), (0x1A1B, 0x1A1B), (0x1A56, 0x1A56), (0x1A58, 0x1A5E), (0x1A60, 0x1A60),
      (0x1A62, 0x1A62), (0x1A65, 0x1A6C), (0x1A73, 0x1A7C), (0x1A7F, 0x1A7F), (0x1AA7, 0x1AA7),
      (0x1AB0, 0x1ACE), (0x1B00, 0x1B03), (0x1B34, 0x1B34), (0x1B36, 0x1B3A), (0x1B3C, 0x1B3C),
      (0x1B42, 0x1B42), (0x1B6B, 0x1B73), (0x1B80, 0x1B81), (0x1BA2, 0x1BA5), (0x1BA8, 0x1BA9),
      (0x1BAB, 0x1BAD), (0x1BE6, 0x1BE6), (0x1BE8, 0x1BE9), (0x1BED, 0x1BED), (0x1BEF, 0x1BF1),
      (0x1C2C, 0x1C33), (0x1C36, 0x1C37), (0x1C78, 0x1C7D), (0x1CD0, 0x1CD2), (0x1CD4, 0x1CE0),
      (0x1CE2, 0x1CE8), (0x1CED, 0x1CED), (0x1CF4, 0x1CF4), (0x1CF8, 0x1CF9), (0x1D2C, 0x1D6A),
      (0x1D78, 0x1D78), (0x1D9B, 0x1DFF), (0x1FBD, 0x1FBD), (0x1FBF, 0x1FC1), (0x1FCD, 0x1FCF),
      (0x1FDD, 0x1FDF), (0x1FED, 0x1FEF), (0x1FFD, 0x1FFE), (0x200B, 0x200F), (0x2018, 0x2019),
      (0x2024, 0x2024), (0x2027, 0x2027), (0x202A, 0x202E), (0x2060, 0x2064), (0x2066, 0x206F),
      (0x2071, 0x2071), (0x207F, 0x207F), (0x2090, 0x209C), (0x20D0, 0x20F0), (0x2C7C, 0x2C7D),
      (0x2CEF, 0x2CF1), (0x2D6F, 0x2D6F), (0x2D7F, 0x2D7F), (0x2DE0, 0x2DFF), (0x2E2F, 0x2E2F),
      (0x3005, 0x3005), (0x302A, 0x302D), (0x3031, 0x3035), (0x303B, 0x303B), (0x3099, 0x309E),
      (0x30FC, 0x30FE), (0xA015, 0xA015), (0xA4F8, 0xA4FD), (0xA60C, 0xA60C), (0xA66F, 0xA672),
      (0xA674, 0xA67D), (0xA67F, 0xA67F), (0xA69C, 0xA69F), (0xA6F0, 0xA6F1), (0xA700, 0xA721),
      (0xA770, 0xA770), (0xA788, 0xA78A), (0xA7F2, 0xA7F4), (0xA7F8, 0xA7F9), (0xA802, 0xA802),
      (0xA806, 0xA806), (0xA80B, 0xA80B), (0xA825, 0xA826), (0xA82C, 0xA82C), (0xA8C4, 0xA8C5),
      (0xA8E0, 0xA8F1), (0xA8FF, 0xA8FF), (0xA926, 0xA92D), (0xA947, 0xA951), (0xA980, 0xA982),
      (0xA9B3, 0xA9B3), (0xA9B6, 0xA9B9), (0xA9BC, 0xA9BD), (0xA9CF, 0xA9CF), (0xA9E5, 0xA9E6),
      (0xAA29, 0xAA2E), (0xAA31, 0xAA32), (0xAA35, 0xAA36), (0xAA43, 0xAA43), (0xAA4C, 0xAA4C),
      (0xAA70, 0xAA70), (0xAA7C, 0xAA7C), (0xAAB0, 0xAAB0), (0xAAB2, 0xAAB4), (0xAAB7, 0xAAB8),
      (0xAABE, 0xAABF), (0xAAC1, 0xAAC1), (0xAADD, 0xAADD), (0xAAEC, 0xAAED), (0xAAF3, 0xAAF4),
      (0xAAF6, 0xAAF6), (0xAB5B, 0xAB5F), (0xAB69, 0xAB6B), (0xABE5, 0xABE5), (0xABE8, 0xABE8),
      (0xABED, 0xABED), (0xFB1E, 0xFB1E), (0xFBB2, 0xFBC2), (0xFE00, 0xFE0F), (0xFE13, 0xFE13),
      (0xFE20, 0xFE2F), (0xFE52, 0xFE52), (0xFE55, 0xFE55), (0xFEFF, 0xFEFF), (0xFF07, 0xFF07),
      (0xFF0E, 0xFF0E), (0xFF1A, 0xFF1A), (0xFF3E, 0xFF3E), (0xFF40, 0xFF40), (0xFF70, 0xFF70),
      (0xFF9E, 0xFF9F), (0xFFE3, 0xFFE3), (0xFFF9, 0xFFFB), (0x101FD, 0x101FD), (0x102E0, 0x102E0),
      (0x10376, 0x1037A), (0x10780, 0x10785), (0x10787, 0x107B0), (0x107B2, 0x107BA), (0x10A01, 0x10A03),
      (0x10A05, 0x10A06), (0x10A0C, 0x10A0F), (0x10A38, 0x10A3A), (0x10A3F, 0x10A3F), (0x10AE5, 0x10AE6),
      (0x10D24, 0x10D27), (0x10EAB, 0x10EAC), (0x10F46, 0x10F50), (0x10F82, 0x10F85), (0x11001, 0x11001),
      (0x11038, 0x11046), (0x11070, 0x11070), (0x11073, 0x11074), (0x1107F, 0x11081), (0x110B3, 0x110B6),
      (0x110B9, 0x110BA), (0x110BD, 0x110BD), (0x110C2, 0x110C2), (0x110CD, 0x110CD), (0x11100, 0x11102),
      (0x11127, 0x1112B), (0x1112D, 0x11134), (0x11173, 0x11173), (0x11180, 0x11181), (0x111B6, 0x111BE),
      (0x111C9, 0x111CC), (0x111CF, 0x111CF), (0x1122F, 0x11231), (0x11234, 0x11234), (0x11236, 0x11237),
      (0x1123E, 0x1123E), (0x112DF, 0x112DF), (0x112E3, 0x112EA), (0x11300, 0x11301), (0x1133B, 0x1133C),
      (0x11340, 0x11340), (0x11366, 0x1136C), (0x11370, 0x11374), (0x11438, 0x1143F), (0x11442, 0x11444),
      (0x11446, 0x11446), (0x1145E, 0x1145E), (0x114B3, 0x114B8), (0x114BA, 0x114BA), (0x114BF, 0x114C0),
      (0x114C2, 0x114C3), (0x115B2, 0x115B5), (0x115BC, 0x115BD), (0x115BF, 0x115C0), (0x115DC, 0x115DD),
      (0x11633, 0x1163A), (0x1163D, 0x1163D), (0x1163F, 0x11640), (0x116AB, 0x116AB), (0x116AD, 0x116AD),
      (0x116B0, 0x116B5), (0x116B7, 0x116B7), (0x1171D, 0x1171F), (0x11722, 0x11725), (0x11727, 0x1172B),
      (0x1182F, 0x11837), (0x11839, 0x1183A), (0x1193B, 0x1193C), (0x1193E, 0x1193E), (0x11943, 0x11943),
      (0x119D4, 0x119D7), (0x119DA, 0x119DB), (0x119E0, 0x119E0), (0x11A01, 0x11A0A), (0x11A33, 0x11A38),
      (0x11A3B, 0x11A3E), (0x11A47, 0x11A47), (0x11A51, 0x11A56), (0x11A59, 0x11A5B), (0x11A8A, 0x11A96),
      (0x11A98, 0x11A99), (0x11C30, 0x11C36), (0x11C38, 0x11C3D), (0x11C3F, 0x11C3F), (0x11C92, 0x11CA7),
      (0x11CAA, 0x11CB0), (0x11CB2, 0x11CB3), (0x11CB5, 0x11CB6), (0x11D31, 0x11D36), (0x11D3A, 0x11D3A),
      (0x11D3C, 0x11D3D), (0x11D3F, 0x11D45), (0x11D47, 0x11D47), (0x11D90, 0x11D91), (0x11D95, 0x11D95),
      (0x11D97, 0x11D97), (0x11EF3, 0x11EF4), (0x13430, 0x13438), (0x16AF0, 0x16AF4), (0x16B30, 0x16B36),
      (0x16B40, 0x16B43), (0x16F4F, 0x16F4F), (0x16F8F, 0x16F9F), (0x16FE0, 0x16FE1), (0x16FE3, 0x16FE4),
      (0x1AFF0, 0x1AFF3), (0x1AFF5, 0x1AFFB), (0x1AFFD, 0x1AFFE), (0x1BC9D, 0x1BC9E), (0x1BCA0, 0x1BCA3),
      (0x1CF00, 0x1CF2D), (0x1CF30, 0x1CF46), (0x1D167, 0x1D169), (0x1D173, 0x1D182), (0x1D185, 0x1D18B),
      (0x1D1AA, 0x1D1AD), (0x1D242, 0x1D244), (0x1DA00, 0x1DA36), (0x1DA3B, 0x1DA6C), (0x1DA75, 0x1DA75),
      (0x1DA84, 0x1DA84), (0x1DA9B, 0x1DA9F), (0x1DAA1, 0x1DAAF), (0x1E000, 0x1E006), (0x1E008, 0x1E018),
      (0x1E01B, 0x1E021), (0x1E023, 0x1E024), (0x1E026, 0x1E02A), (0x1E130, 0x1E13D), (0x1E2AE, 0x1E2AE),
      (0x1E2EC, 0x1E2EF), (0x1E8D0, 0x1E8D6), (0x1E944, 0x1E94B), (0x1F3FB, 0x1F3FF), (0xE0001, 0xE0001),
      (0xE0020, 0xE007F), (0xE0100, 0xE01EF)
     ]"

text \<open>The code points with the property Cased that are not case-ignorable (the
  search for a cased letter passes over the case-ignorable ones first).\<close>

definition casedRanges :: "(nat \<times> nat) list" where
  "casedRanges =
     [
      (0x41, 0x5A), (0x61, 0x7A), (0xAA, 0xAA), (0xB5, 0xB5), (0xBA, 0xBA),
      (0xC0, 0xD6), (0xD8, 0xF6), (0xF8, 0x1BA), (0x1BC, 0x1BF), (0x1C4, 0x293),
      (0x295, 0x2AF), (0x370, 0x373), (0x376, 0x377), (0x37B, 0x37D), (0x37F, 0x37F),
      (0x386, 0x386), (0x388, 0x38A), (0x38C, 0x38C), (0x38E, 0x3A1), (0x3A3, 0x3F5),
      (0x3F7, 0x481), (0x48A, 0x52F), (0x531, 0x556), (0x560, 0x588), (0x10A0, 0x10C5),
      (0x10C7, 0x10C7), (0x10CD, 0x10CD), (0x10D0, 0x10FA), (0x10FD, 0x10FF), (0x13A0, 0x13F5),
      (0x13F8, 0x13FD), (0x1C80, 0x1C88), (0x1C90, 0x1CBA), (0x1CBD, 0x1CBF), (0x1D00, 0x1D2B),
      (0x1D6B, 0x1D77), (0x1D79, 0x1D9A), (0x1E00, 0x1F15), (0x1F18, 0x1F1D), (0x1F20, 0x1F45),
      (0x1F48, 0x1F4D), (0x1F50, 0x1F57), (0x1F59, 0x1F59), (0x1F5B, 0x1F5B), (0x1F5D, 0x1F5D),
      (0x1F5F, 0x1F7D), (0x1F80, 0x1FB4), (0x1FB6, 0x1FBC), (0x1FBE, 0x1FBE), (0x1FC2, 0x1FC4),
      (0x1FC6, 0x1FCC), (0x1FD0, 0x1FD3), (0x1FD6, 0x1FDB), (0x1FE0, 0x1FEC), (0x1FF2, 0x1FF4),
      (0x1FF6, 0x1FFC), (0x2102, 0x2102), (0x2107, 0x2107), (0x210A, 0x2113), (0x2115, 0x2115),
      (0x2119, 0x211D), (0x2124, 0x2124), (0x2126, 0x2126), (0x2128, 0x2128), (0x212A, 0x212D),
      (0x212F, 0x2134), (0x2139, 0x2139), (0x213C, 0x213F), (0x2145, 0x2149), (0x214E, 0x214E),
      (0x2160, 0x217F), (0x2183, 0x2184), (0x24B6, 0x24E9), (0x2C00, 0x2C7B), (0x2C7E, 0x2CE4),
      (0x2CEB, 0x2CEE), (0x2CF2, 0x2CF3), (0x2D00, 0x2D25), (0x2D27, 0x2D27), (0x2D2D, 0x2D2D),
      (0xA640, 0xA66D), (0xA680, 0xA69B), (0xA722, 0xA76F), (0xA771, 0xA787), (0xA78B, 0xA78E),
      (0xA790, 0xA7CA), (0xA7D0, 0xA7D1), (0xA7D3, 0xA7D3), (0xA7D5, 0xA7D9), (0xA7F5, 0xA7F6),
      (0xA7FA, 0xA7FA), (0xAB30, 0xAB5A), (0xAB60, 0xAB68), (0xAB70, 0xABBF), (0xFB00, 0xFB06),
      (0xFB13, 0xFB17), (0xFF21, 0xFF3A), (0xFF41, 0xFF5A), (0x10400, 0x1044F), (0x104B0, 0x104D3),
      (0x104D8, 0x104FB), (0x10570, 0x1057A), (0x1057C, 0x1058A), (0x1058C, 0x10592), (0x10594, 0x10595),
      (0x10597, 0x105A1), (0x105A3, 0x105B1), (0x105B3, 0x105B9), (0x105BB, 0x105BC), (0x10C80, 0x10CB2),
      (0x10CC0, 0x10CF2), (0x118A0, 0x118DF), (0x16E40, 0x16E7F), (0x1D400, 0x1D454), (0x1D456, 0x1D49C),
      (0x1D49E, 0x1D49F), (0x1D4A2, 0x1D4A2), (0x1D4A5, 0x1D4A6), (0x1D4A9, 0x1D4AC), (0x1D4AE, 0x1D4B9),
      (0x1D4BB, 0x1D4BB), (0x1D4BD, 0x1D4C3), (0x1D4C5, 0x1D505), (0x1D507, 0x1D50A), (0x1D50D, 0x1D514),
      (0x1D516, 0x1D51C), (0x1D51E, 0x1D539), (0x1D53B, 0x1D53E), (0x1D540, 0x1D544), (0x1D546, 0x1D546),
      (0x1D54A, 0x1D550), (0x1D552, 0x1D6A5), (0x1D6A8, 0x1D6C0), (0x1D6C2, 0x1D6DA), (0x1D6DC, 0x1D6FA),
      (0x1D6FC, 0x1D714), (0x1D716, 0x1D734), (0x1D736, 0x1D74E), (0x1D750, 0x1D76E), (0x1D770, 0x1D788),
      (0x1D78A, 0x1D7A8), (0x1D7AA, 0x1D7C2), (0x1D7C4, 0x1D7CB), (0x1DF00, 0x1DF09), (0x1DF0B, 0x1DF1E),
      (0x1E900, 0x1E943), (0x1F130, 0x1F149), (0x1F150, 0x1F169), (0x1F170, 0x1F189)
     ]"

definition inRanges :: "(nat \<times> nat) list \<Rightarrow> nat \<Rightarrow> bool" where
  "inRanges rs c = list_ex (\<lambda>(lo, hi). lo \<le> c \<and> c \<le> hi) rs"

definition isCaseIgnorable :: "nat \<Rightarrow> bool" where
  "isCaseIgnorable c = inRanges caseIgnorableRanges c"

definition isCased :: "nat \<Rightarrow> bool" where
  "isCased c = inRanges casedRanges c"

definition lowerCodePoint :: "nat \<Rightarrow> nat" where
  "lowerCodePoint c =
     (if c < 0x80 then (if 0x41 \<le> c \<and> c \<le> 0x5A then c + 0x20 else c)
      else case find (\<lambda>(lo, hi, stride, delta). lo \<le> c \<and> c \<le> hi \<and> (c - lo) mod stride = 0)
                  lowerRanges of
             None \<Rightarrow> c
           | Some (lo, hi, stride, delta) \<Rightarrow> nat (int c + delta))"

text \<open>
  Final_Sigma: going back from the sigma over the case-ignorable code points there is a
  cased letter, and going forward over the case-ignorable ones there is none.
  \<open>prev\<close> holds the code points that come before the sigma, the nearest first.
\<close>

definition finalSigma :: "nat list \<Rightarrow> nat list \<Rightarrow> bool" where
  "finalSigma prev rest \<longleftrightarrow>
     (case dropWhile isCaseIgnorable prev of [] \<Rightarrow> False | b # _ \<Rightarrow> isCased b) \<and>
     (case dropWhile isCaseIgnorable rest of [] \<Rightarrow> True | a # _ \<Rightarrow> \<not> isCased a)"

fun lowerFrom :: "nat list \<Rightarrow> nat list \<Rightarrow> nat list" where
  "lowerFrom prev [] = []"
| "lowerFrom prev (c # rest) =
     (if c = 0x3A3 then [if finalSigma prev rest then 0x3C2 else 0x3C3]
      else if c = 0x130 then [0x69, 0x307]
      else [lowerCodePoint c]) @ lowerFrom (c # prev) rest"

definition toLowerCase :: "jsstring \<Rightarrow> jsstring" where
  "toLowerCase s = CodePointsToString (lowerFrom [] (StringToCodePoints s))"

text \<open>On Basic Latin the mapping sends \<open>A\<close>..\<open>Z\<close> to \<open>a\<close>..\<open>z\<close>, one code unit
  at a time.\<close>

definition lowerChar :: "jschar \<Rightarrow> jschar" where
  "lowerChar c = (if 0x41 \<le> c \<and> c \<le> 0x5A then c + 0x20 else c)"

definition isBasicLatin :: "jsstring \<Rightarrow> bool" where
  "isBasicLatin s \<longleftrightarrow> list_all (\<lambda>c. c < 0x80) s"

text \<open>
  \<open>s.split(sep)\<close> for a separator that is one code unit out of a set (the calls
  \<open>split(",")\<close> and \<open>split(/[;|,]/)\<close>): the pieces between the separators, \<open>[""]\<close>
  for the empty string. \<open>cur\<close> holds the piece being read, reversed.
\<close>

fun splitAcc :: "(jschar \<Rightarrow> bool) \<Rightarrow> jsstring \<Rightarrow> jsstring \<Rightarrow> jsstring list" where
  "splitAcc p cur [] = [rev cur]"
| "splitAcc p cur (c # cs) =
     (if p c then rev cur # splitAcc p [] cs else splitAcc p (c # cur) cs)"

definition split :: "(jschar \<Rightarrow> bool) \<Rightarrow> jsstring \<Rightarrow> jsstring list" where
  "split p s = splitAcc p [] s"

definition isComma :: "jschar \<Rightarrow> bool" where
  "isComma c \<longleftrightarrow> c = COMMA"

text \<open>The character class \<open>[;|,]\<close>.\<close>

definition isTagSep :: "jschar \<Rightarrow> bool" where
  "isTagSep c \<longleftrightarrow> c = 0x3B \<or> c = 0x7C \<or> c = 0x2C"

text \<open>
  \<open>text.split(/\r?\n/)\<close>: a line feed ends a piece, and a carriage return right before
  it belongs to the separator.
\<close>

fun splitLinesAcc :: "jsstring \<Rightarrow> jsstring \<Rightarrow> jsstring list" where
  "splitLinesAcc cur [] = [rev cur]"
| "splitLinesAcc cur [c] =
     (if c = LF then [rev cur, []] else [rev (c # cur)])"
| "splitLinesAcc cur (c # d # cs) =
     (if c = CR \<and> d = LF then rev cur # splitLinesAcc [] cs
      else if c = LF then rev cur # splitLinesAcc [] (d # cs)
      else splitLinesAcc (c # cur) (d # cs))"

definition splitLines :: "jsstring \<Rightarrow> jsstring list" where
  "splitLines s = splitLinesAcc [] s"

text \<open>\<open>xs.join(sep)\<close> on strings.\<close>

fun join :: "jsstring \<Rightarrow> jsstring list \<Rightarrow> jsstring" where
  "join sep [] = []"
| "join sep [x] = x"
| "join sep (x # y # ys) = x @ sep @ join sep (y # ys)"

text \<open>\<open>s.includes(q)\<close>: \<open>q\<close> occurs in \<open>s\<close> as a contiguous run of code units.\<close>

fun includes_str :: "jsstring \<Rightarrow> jsstring \<Rightarrow> bool" where
  "includes_str [] q = (q = [])"
| "includes_str (c # cs) q = (take (length q) (c # cs) = q \<or> includes_str cs q)"

text \<open>\<open>xs.findIndex(p)\<close>: the first index whose element satisfies \<open>p\<close>, or \<open>-1\<close>.\<close>

fun findIndex :: "('a \<Rightarrow> bool) \<Rightarrow> 'a list \<Rightarrow> int" where
  "findIndex p [] = -1"
| "findIndex p (x # xs) =
     (if p x then 0 else (let i = findIndex p xs in if i < 0 then -1 else i + 1))"

section \<open>JavaScript numbers\<close>

text \<open>
  A Number is NaN, an infinity or a finite value. Only \<open>Number.isNaN\<close> and the
  comparisons \<open>>=\<close>, \<open><=\<close> are applied to numbers in the code, so the finite values
  are kept as the reals they denote (the two zeros coincide under comparison).
\<close>

datatype number = NaN | NegInf | Fin real | PosInf

fun num_le :: "number \<Rightarrow> number \<Rightarrow> bool" where
  "num_le NaN _ = False"
| "num_le _ NaN = False"
| "num_le NegInf _ = True"
| "num_le _ PosInf = True"
| "num_le (Fin a) (Fin b) = (a \<le> b)"
| "num_le (Fin a) NegInf = False"
| "num_le PosInf _ = False"

definition num_ge :: "number \<Rightarrow> number \<Rightarrow> bool" where
  "num_ge a b = num_le b a"

definition isNaN :: "number \<Rightarrow> bool" where
  "isNaN x \<longleftrightarrow> x = NaN"

text \<open>
  \<open>Number(s)\<close> on a string is StringToNumber (ECMA-262, 7.1.4.1.1): white space is
  stripped at both ends; the empty string is \<open>0\<close>; a decimal literal with optional sign,
  fraction and exponent, \<open>Infinity\<close> with optional sign, and unsigned binary, octal and
  hexadecimal integer literals are read; anything else is \<open>NaN\<close>. The value is the
  mathematical value of the literal (the rounding to binary64 is not modelled).
\<close>

definition isDigit :: "jschar \<Rightarrow> bool" where
  "isDigit c \<longleftrightarrow> 0x30 \<le> c \<and> c \<le> 0x39"

definition hexVal :: "jschar \<Rightarrow> nat option" where
  "hexVal c =
     (if 0x30 \<le> c \<and> c \<le> 0x39 then Some (unat c - 48)
      else if 0x61 \<le> c \<and> c \<le> 0x66 then Some (unat c - 87)
      else if 0x41 \<le> c \<and> c \<le> 0x46 then Some (unat c - 55)
      else None)"

text \<open>The digits of \<open>s\<close> read in base \<open>b\<close>, from the value \<open>acc\<close> on; \<open>None\<close> if one
  of them is no digit of that base.\<close>

fun digitsVal :: "nat \<Rightarrow> nat \<Rightarrow> jsstring \<Rightarrow> nat option" where
  "digitsVal b acc [] = Some acc"
| "digitsVal b acc (c # cs) =
     (case hexVal c of
        None \<Rightarrow> None
      | Some d \<Rightarrow> if d < b then digitsVal b (acc * b + d) cs else None)"

definition radixLiteral :: "nat \<Rightarrow> jsstring \<Rightarrow> number" where
  "radixLiteral b ds =
     (if ds = [] then NaN
      else case digitsVal b 0 ds of None \<Rightarrow> NaN | Some v \<Rightarrow> Fin (real v))"

text \<open>ExponentPart: \<open>e\<close> or \<open>E\<close>, an optional sign, one digit or more.\<close>

definition exponentPart :: "jsstring \<Rightarrow> int option" where
  "exponentPart s =
     (case s of
        [] \<Rightarrow> Some 0
      | c # r \<Rightarrow>
          if c = 0x65 \<or> c = 0x45 then
            (let neg = (take 1 r = [0x2D]);
                 ds = (if take 1 r = [0x2D] \<or> take 1 r = [0x2B] then drop 1 r else r)
             in if ds = [] then None
                else case digitsVal 10 0 ds of
                       None \<Rightarrow> None
                     | Some v \<Rightarrow> Some (if neg then - int v else int v))
          else None)"

definition scale10 :: "nat \<Rightarrow> int \<Rightarrow> real" where
  "scale10 m e = (if 0 \<le> e then real m * 10 ^ nat e else real m / 10 ^ nat (- e))"

text \<open>StrUnsignedDecimalLiteral; \<open>neg\<close> tells that a minus sign was read before it.\<close>

definition unsignedDecimal :: "bool \<Rightarrow> jsstring \<Rightarrow> number" where
  "unsignedDecimal neg s =
     (if s = js ''Infinity'' then (if neg then NegInf else PosInf)
      else
        let ip = takeWhile isDigit s;
            r1 = dropWhile isDigit s;
            dot = (take 1 r1 = [0x2E]);
            fp = (if dot then takeWhile isDigit (drop 1 r1) else []);
            r2 = (if dot then dropWhile isDigit (drop 1 r1) else r1)
        in if ip = [] \<and> fp = [] then NaN
           else case (digitsVal 10 0 (ip @ fp), exponentPart r2) of
                  (Some m, Some e) \<Rightarrow>
                    Fin ((if neg then -1 else 1) * scale10 m (e - int (length fp)))
                | _ \<Rightarrow> NaN)"

definition Number :: "jsstring \<Rightarrow> number" where
  "Number str =
     (let s = trim str in
      if s = [] then Fin 0
      else if take 2 s = js ''0x'' \<or> take 2 s = js ''0X'' then radixLiteral 16 (drop 2 s)
      else if take 2 s = js ''0o'' \<or> take 2 s = js ''0O'' then radixLiteral 8 (drop 2 s)
      else if take 2 s = js ''0b'' \<or> take 2 s = js ''0B'' then radixLiteral 2 (drop 2 s)
      else if take 1 s = [0x2B] then unsignedDecimal False (drop 1 s)
      else if take 1 s = [0x2D] then unsignedDecimal True (drop 1 s)
      else unsignedDecimal False s)"

section \<open>The data schema and the guards\<close>

text \<open>
  The type \<open>Center\<close> of the source. The optional fields (\<open>address?\<close>, \<open>phone?\<close>,
  \<open>hours?\<close>, \<open>note?\<close>, \<open>tags?\<close>) are \<open>None\<close> when absent. The fields \<open>id\<close> and
  \<open>note\<close> are written \<open>id'\<close> and \<open>note'\<close>.
\<close>

record Center =
  id' :: jsstring
  name :: jsstring
  address :: "jsstring option"
  lat :: number
  lng :: number
  phone :: "jsstring option"
  hours :: "jsstring option"
  note' :: "jsstring option"
  tags :: "jsstring list option"

text \<open>A thrown exception, with its \<open>message\<close>.\<close>

datatype error = Error jsstring | TypeError jsstring

definition andThen :: "error + 'a \<Rightarrow> ('a \<Rightarrow> error + 'b) \<Rightarrow> error + 'b" where
  "andThen r k = (case r of Inl e \<Rightarrow> Inl e | Inr x \<Rightarrow> k x)"

text \<open>\<open>assert(condition, message)\<close> throws \<open>Error("Test failed: " + message)\<close> when the
  condition is false.\<close>

definition assert :: "bool \<Rightarrow> jsstring \<Rightarrow> error + unit" where
  "assert condition message =
     (if \<not> condition then Inl (Error (js ''Test failed: '' @ message)) else Inr ())"

text \<open>\<open>LngLatBoundsLike\<close> as the code destructures it: \<open>[[w, s], [e, n]]\<close>.\<close>

type_synonym bounds = "(number \<times> number) \<times> (number \<times> number)"

text \<open>
  The callback of \<open>data.forEach\<close> in \<open>validateCenters\<close>. The \<open>typeof\<close> tests hold by
  the types of the record; what is left of each assertion is its second conjunct.
\<close>

definition validateCenter :: "bounds option \<Rightarrow> Center \<Rightarrow> error + unit" where
  "validateCenter bnds c =
     andThen (assert (length (id' c) > 0) (js ''invalid id for '' @ name c)) (\<lambda>_.
     andThen (assert (length (name c) > 0) (js ''invalid name for '' @ id' c)) (\<lambda>_.
     andThen (assert (\<not> isNaN (lat c)) (js ''lat must be number: '' @ id' c)) (\<lambda>_.
     andThen (assert (\<not> isNaN (lng c)) (js ''lng must be number: '' @ id' c)) (\<lambda>_.
       case bnds of
         None \<Rightarrow> Inr ()
       | Some ((w, s), (e, n)) \<Rightarrow>
           andThen (assert (num_ge (lat c) s \<and> num_le (lat c) n)
                      (js ''lat out of bounds: '' @ id' c)) (\<lambda>_.
           assert (num_ge (lng c) w \<and> num_le (lng c) e)
                  (js ''lng out of bounds: '' @ id' c))))))"

text \<open>\<open>forEach\<close> runs the callback on the records in order; the first throw ends it.\<close>

fun validateCenters :: "Center list \<Rightarrow> bounds option \<Rightarrow> error + unit" where
  "validateCenters [] bnds = Inr ()"
| "validateCenters (c # cs) bnds =
     andThen (validateCenter bnds c) (\<lambda>_. validateCenters cs bnds)"

section \<open>The CSV parser that splits on commas (src/App.tsx)\<close>

text \<open>The column indices found in the header; \<open>-1\<close> for a column that is absent.\<close>

record Columns =
  idI :: int
  nameI :: int
  addrI :: int
  latI :: int
  lngI :: int
  phoneI :: int
  hoursI :: int
  noteI :: int
  tagsI :: int

text \<open>\<open>get(i)\<close>: \<open>i >= 0 ? cells[i]?.trim() ?? "" : ""\<close>.\<close>

definition get :: "jsstring list \<Rightarrow> int \<Rightarrow> jsstring" where
  "get cells i =
     (if i \<ge> 0 then (if nat i < length cells then trim (cells ! nat i) else [])
      else [])"

text \<open>The body of the loop over the rows, for a row that is not skipped.\<close>

definition rowCenter :: "Columns \<Rightarrow> jsstring list \<Rightarrow> Center" where
  "rowCenter ix cells =
     (let lat = Number (get cells (latI ix));
          lng = Number (get cells (lngI ix));
          tagsRaw = get cells (tagsI ix);
          tags = (if tagsRaw \<noteq> []
                  then filter (\<lambda>t. t \<noteq> []) (map trim (split isTagSep tagsRaw))
                  else [])
      in \<lparr> id' = get cells (idI ix), name = get cells (nameI ix),
           address = Some (get cells (addrI ix)), lat = lat, lng = lng,
           phone = Some (get cells (phoneI ix)), hours = Some (get cells (hoursI ix)),
           note' = Some (get cells (noteI ix)), tags = Some tags \<rparr>)"

text \<open>\<open>for (const row of rows)\<close>, with \<open>out\<close> the records pushed so far.\<close>

fun parseRows :: "Columns \<Rightarrow> jsstring list \<Rightarrow> Center list \<Rightarrow> Center list" where
  "parseRows ix [] out = out"
| "parseRows ix (row # rows) out =
     (let cells = split isComma row in
      if length cells = 1 \<and> trim (cells ! 0) = [] then parseRows ix rows out
      else parseRows ix rows (out @ [rowCenter ix cells]))"

definition headerColumns :: "(jsstring \<Rightarrow> int) \<Rightarrow> Columns" where
  "headerColumns idx =
     \<lparr> idI = idx (js ''id''), nameI = idx (js ''name''), addrI = idx (js ''address''),
       latI = idx (js ''lat''), lngI = idx (js ''lng''), phoneI = idx (js ''phone''),
       hoursI = idx (js ''hours''), noteI = idx (js ''note''), tagsI = idx (js ''tags'') \<rparr>"

definition parseCSV :: "jsstring \<Rightarrow> error + Center list" where
  "parseCSV text =
     (let lines = filter (\<lambda>l. length (trim l) > 0) (splitLines text) in
      if length lines = 0 then Inr []
      else
        let header = map trim (split isComma (lines ! 0));
            idx = (\<lambda>k. findIndex (\<lambda>h. toLowerCase h = k) header);
            ix = headerColumns idx
        in andThen
             (assert (idI ix \<ge> 0 \<and> nameI ix \<ge> 0 \<and> latI ix \<ge> 0 \<and> lngI ix \<ge> 0)
                (js ''CSV header must include id,name,lat,lng''))
             (\<lambda>_. Inr (parseRows ix (drop 1 lines) [])))"

section \<open>The CSV parser that honours quotes (the second variant of App.tsx)\<close>

text \<open>
  The first loop cuts the text into rows: \<open>""\<close> is a literal quote, a single quote
  toggles \<open>inQ\<close>, a line feed outside quotes ends the row. \<open>text[i + 1]\<close> past the end
  is \<open>undefined\<close> and equals no character. After the loop the last row is pushed if it is
  not blank.
\<close>

fun scanRows :: "bool \<Rightarrow> jsstring \<Rightarrow> jsstring \<Rightarrow> jsstring list" where
  "scanRows inQ cur [] = (if length (trim cur) \<noteq> 0 then [cur] else [])"
| "scanRows inQ cur (ch # rest) =
     (if ch = DQUOTE \<and> take 1 rest = [DQUOTE] then scanRows inQ (cur @ [DQUOTE]) (drop 1 rest)
      else if ch = DQUOTE then scanRows (\<not> inQ) cur rest
      else if ch = LF \<and> \<not> inQ then cur # scanRows inQ [] rest
      else scanRows inQ (cur @ [ch]) rest)"

text \<open>\<open>splitRow(r)\<close>: the cells of a row, split on the commas outside quotes, trimmed.\<close>

fun splitRowAcc :: "bool \<Rightarrow> jsstring \<Rightarrow> jsstring \<Rightarrow> jsstring list" where
  "splitRowAcc q cell [] = [trim cell]"
| "splitRowAcc q cell (ch # rest) =
     (if ch = DQUOTE \<and> take 1 rest = [DQUOTE]
      then splitRowAcc q (cell @ [DQUOTE]) (drop 1 rest)
      else if ch = DQUOTE then splitRowAcc (\<not> q) cell rest
      else if ch = COMMA \<and> \<not> q then trim cell # splitRowAcc q [] rest
      else splitRowAcc q (cell @ [ch]) rest)"

definition splitRow :: "jsstring \<Rightarrow> jsstring list" where
  "splitRow r = splitRowAcc False [] r"

text \<open>\<open>val(i)\<close>: \<open>i >= 0 ? (cells[i] ?? "").trim() : ""\<close>.\<close>

definition val :: "jsstring list \<Rightarrow> int \<Rightarrow> jsstring" where
  "val cells i =
     (if i \<ge> 0 then trim (if nat i < length cells then cells ! nat i else []) else [])"

definition rowCenter_q :: "Columns \<Rightarrow> jsstring list \<Rightarrow> Center" where
  "rowCenter_q ix cells =
     (let lat = Number (val cells (latI ix));
          lng = Number (val cells (lngI ix));
          tags = filter (\<lambda>t. t \<noteq> []) (map trim (split isTagSep (val cells (tagsI ix))))
      in \<lparr> id' = val cells (idI ix), name = val cells (nameI ix),
           address = Some (val cells (addrI ix)), lat = lat, lng = lng,
           phone = Some (val cells (phoneI ix)), hours = Some (val cells (hoursI ix)),
           note' = Some (val cells (noteI ix)), tags = Some tags \<rparr>)"

fun parseRows_q :: "Columns \<Rightarrow> jsstring list \<Rightarrow> Center list \<Rightarrow> Center list" where
  "parseRows_q ix [] out = out"
| "parseRows_q ix (r # rows) out =
     (if trim r = [] then parseRows_q ix rows out
      else parseRows_q ix rows (out @ [rowCenter_q ix (splitRow r)]))"

text \<open>
  \<open>rows[0].split(",")\<close> on an empty \<open>rows\<close> reads a property of \<open>undefined\<close>: a
  TypeError (the message is the one of V8).
\<close>

definition parseCSV_q :: "jsstring \<Rightarrow> error + Center list" where
  "parseCSV_q text =
     (let rows = scanRows False [] text in
      case rows of
        [] \<Rightarrow> Inl (TypeError (js ''Cannot read properties of undefined (reading 'split')''))
      | r0 # _ \<Rightarrow>
          let header = map (\<lambda>h. toLowerCase (trim h)) (split isComma r0);
              getIdx = (\<lambda>k. findIndex (\<lambda>h. h = k) header);
              ix = headerColumns getIdx
          in andThen
               (assert (idI ix \<ge> 0 \<and> nameI ix \<ge> 0 \<and> latI ix \<ge> 0 \<and> lngI ix \<ge> 0)
                  (js ''CSV header must include id,name,lat,lng''))
               (\<lambda>_. Inr (parseRows_q ix (drop 1 rows) [])))"

section \<open>The derivation layer\<close>

text \<open>\<open>c.tags || []\<close>.\<close>

definition tagsOf :: "Center \<Rightarrow> jsstring list" where
  "tagsOf c = (case tags c of None \<Rightarrow> [] | Some ts \<Rightarrow> ts)"

text \<open>An element of an array that is \<open>undefined\<close> is joined as the empty string.\<close>

definition orEmpty :: "jsstring option \<Rightarrow> jsstring" where
  "orEmpty x = (case x of None \<Rightarrow> [] | Some s \<Rightarrow> s)"

definition hasTag :: "Center \<Rightarrow> jsstring \<Rightarrow> bool" where
  "hasTag c t = list_ex (\<lambda>x. trim x = t) (tagsOf c)"

text \<open>The literals \<open>U+C2E4 U+AE30 ( U+C791 U+C5C5 )\<close> (practical), \<open>U+D544 U+AE30\<close>
  (written) and \<open>U+AE30 U+D0C0\<close> (other).\<close>

definition PRACTICAL :: jsstring where
  "PRACTICAL = [0xC2E4, 0xAE30, 0x28, 0xC791, 0xC5C5, 0x29]"

definition WRITTEN :: jsstring where
  "WRITTEN = [0xD544, 0xAE30]"

definition OTHER :: jsstring where
  "OTHER = [0xAE30, 0xD0C0]"

text \<open>The search text of a record: \<open>[c.name, c.address, c.note, ...(c.tags || [])].join(" ")\<close>.\<close>

definition searchText :: "Center \<Rightarrow> jsstring" where
  "searchText c =
     join [SPACE] ([name c, orEmpty (address c), orEmpty (note' c)] @ tagsOf c)"

definition filtered :: "Center list \<Rightarrow> jsstring \<Rightarrow> jsstring list \<Rightarrow> Center list" where
  "filtered centers query activeTags =
     (let q = toLowerCase (trim query);
          arr = centers;
          arr = (if q \<noteq> []
                 then filter (\<lambda>c. includes_str (toLowerCase (searchText c)) q) arr
                 else arr);
          arr = (if length activeTags > 0
                 then filter (\<lambda>c. list_ex (\<lambda>t. t \<in> set activeTags) (tagsOf c)) arr
                 else arr)
      in arr)"

definition examType :: "Center \<Rightarrow> jsstring" where
  "examType c =
     (if hasTag c PRACTICAL then PRACTICAL else if hasTag c WRITTEN then WRITTEN else OTHER)"

record Feature =
  f_id :: jsstring
  f_name :: jsstring
  f_address :: "jsstring option"
  f_phone :: "jsstring option"
  f_hours :: "jsstring option"
  f_note :: "jsstring option"
  f_tags :: jsstring
  f_examType :: jsstring
  coordinates :: "number \<times> number"

definition feature :: "Center \<Rightarrow> Feature" where
  "feature c =
     \<lparr> f_id = id' c, f_name = name c, f_address = address c, f_phone = phone c,
       f_hours = hours c, f_note = note' c, f_tags = join (js '', '') (tagsOf c),
       f_examType = examType c, coordinates = (lng c, lat c) \<rparr>"

definition geojson :: "Center list \<Rightarrow> Feature list" where
  "geojson flt = map feature flt"

section \<open>The upload and paste handlers of admin mode\<close>

record ViewState =
  centers :: "Center list"
  csvError :: "jsstring option"
  query :: jsstring
  activeTags :: "jsstring list"








section \<open>Notions of the specification\<close>

subsection \<open>The header row\<close>

text \<open>
  The header row is the first line of the text that is not blank. A column is present
  when a trimmed cell of the header row equals its name after lower-casing.
\<close>

definition headerCells :: "jsstring \<Rightarrow> jsstring list" where
  "headerCells row = map trim (split isComma row)"

definition hasColumn :: "jsstring list \<Rightarrow> jsstring \<Rightarrow> bool" where
  "hasColumn cells k \<longleftrightarrow> (\<exists>h \<in> set cells. toLowerCase h = k)"

definition hasRequired :: "jsstring list \<Rightarrow> bool" where
  "hasRequired cells \<longleftrightarrow>
     hasColumn cells (js ''id'') \<and> hasColumn cells (js ''name'') \<and>
     hasColumn cells (js ''lat'') \<and> hasColumn cells (js ''lng'')"

definition headerRow :: "jsstring \<Rightarrow> jsstring option" where
  "headerRow text =
     (case filter (\<lambda>l. trim l \<noteq> []) (splitLines text) of [] \<Rightarrow> None | l # _ \<Rightarrow> Some l)"

text \<open>What the header assertion throws.\<close>

definition HEADER_ERROR :: error where
  "HEADER_ERROR = Error (js ''Test failed: CSV header must include id,name,lat,lng'')"

subsection \<open>The invariants of a record\<close>



subsection \<open>The category and the free-text match as the specification words them\<close>

text \<open>The category by membership of the literal tag in the tag list.\<close>

definition examType_spec :: "Center \<Rightarrow> jsstring" where
  "examType_spec c =
     (if PRACTICAL \<in> set (tagsOf c) then PRACTICAL
      else if WRITTEN \<in> set (tagsOf c) then WRITTEN else OTHER)"

text \<open>The category by membership of the literal tag among the trimmed tags.\<close>

definition examType_trimmed :: "Center \<Rightarrow> jsstring" where
  "examType_trimmed c =
     (if PRACTICAL \<in> trim ` set (tagsOf c) then PRACTICAL
      else if WRITTEN \<in> trim ` set (tagsOf c) then WRITTEN else OTHER)"


subsection \<open>Texts on which the two parsers are compared\<close>

text \<open>No carriage return stands right before a line feed: the line feed alone breaks
  lines.\<close>

fun crlfFree :: "jsstring \<Rightarrow> bool" where
  "crlfFree [] = True"
| "crlfFree [c] = True"
| "crlfFree (c # d # cs) = (\<not> (c = CR \<and> d = LF) \<and> crlfFree (d # cs))"

definition firstLine :: "jsstring \<Rightarrow> jsstring" where
  "firstLine s = takeWhile (\<lambda>c. c \<noteq> LF) s"

text \<open>The rows the scanning loop keeps of the pieces between line feeds: all but a
  blank last one.\<close>

definition dropBlankLast :: "jsstring list \<Rightarrow> jsstring list" where
  "dropBlankLast ps =
     (if ps = [] then []
      else butlast ps @ (if trim (last ps) \<noteq> [] then [last ps] else []))"

subsection \<open>Sample inputs\<close>

text \<open>A table of two rows; the second row has an empty \<open>lat\<close> cell.\<close>

definition sampleHeader :: jsstring where
  "sampleHeader = js ''id,name,lat,lng''"

definition sampleRow1 :: jsstring where
  "sampleRow1 = js ''c1,A,37.5,127''"

definition sampleRow2 :: jsstring where
  "sampleRow2 = js ''c2,B,,127''"

definition sampleText :: jsstring where
  "sampleText = sampleHeader @ [LF] @ sampleRow1 @ [LF] @ sampleRow2"

definition sampleIx :: Columns where
  "sampleIx = \<lparr> idI = 0, nameI = 1, addrI = -1, latI = 2, lngI = 3, phoneI = -1,
     hoursI = -1, noteI = -1, tagsI = -1 \<rparr>"

definition sampleC1 :: Center where
  "sampleC1 = \<lparr> id' = js ''c1'', name = js ''A'', address = Some [], lat = Fin 37.5,
      lng = Fin 127, phone = Some [], hours = Some [], note' = Some [], tags = Some [] \<rparr>"

definition sampleC2 :: Center where
  "sampleC2 = \<lparr> id' = js ''c2'', name = js ''B'', address = Some [], lat = Fin 0,
      lng = Fin 127, phone = Some [], hours = Some [], note' = Some [], tags = Some [] \<rparr>"

text \<open>A table with a blank line, a tags column with a comma in it and a final line feed.\<close>

definition sampleTagged :: jsstring where
  "sampleTagged = js ''id,name,lat,lng,tags'' @ [LF, LF] @ js ''c1,A,37.5,127,x;y,z'' @ [LF]"

text \<open>Records as the published snapshot can hold them: no optional text, any tags.\<close>

definition tagged :: "jsstring \<Rightarrow> jsstring list \<Rightarrow> Center" where
  "tagged nm ts = \<lparr> id' = nm, name = nm, address = None, lat = Fin 37.5, lng = Fin 127,
     phone = None, hours = None, note' = None, tags = Some ts \<rparr>"

definition paddedWritten :: Center where
  "paddedWritten = tagged (js ''p'') [SPACE # WRITTEN]"

definition bothTags :: Center where
  "bothTags = tagged (js ''b'') [WRITTEN, PRACTICAL]"


definition tagA :: Center where
  "tagA = tagged (js ''a'') [js ''x'']"

definition tagB :: Center where
  "tagB = tagged (js ''b'') [js ''y'']"



text \<open>A table whose header is in mixed case and comes after a blank line, and a table
  whose header holds the quoted cell \<open>"lat,lng"\<close>.\<close>

definition mixedHeader :: jsstring where
  "mixedHeader = js ''ID,Name,lat,lng''"

definition blankFirst :: jsstring where
  "blankFirst = [LF] @ mixedHeader @ [LF] @ sampleRow1"

definition quotedHeader :: jsstring where
  "quotedHeader = js ''id,name,'' @ [DQUOTE] @ js ''lat,lng'' @ [DQUOTE]"

definition quotedFirst :: jsstring where
  "quotedFirst = quotedHeader @ [LF] @ sampleRow1"


section \<open>Properties\<close>

subsection \<open>Lower case on Basic Latin\<close>

lemma basicLatin_unat: "(c :: jschar) < 0x80 \<Longrightarrow> unat c < 0x80"
  by (simp add: word_less_nat_alt)

lemma basicLatin_no_surrogate: "(c :: jschar) < 0x80 \<Longrightarrow> \<not> isLeadSurrogate c"
  by (simp add: isLeadSurrogate_def word_less_nat_alt word_le_nat_alt)

lemma StringToCodePoints_basicLatin:
  "list_all (\<lambda>c. c < 0x80) s \<Longrightarrow> StringToCodePoints s = map unat s"
  by (induction s rule: StringToCodePoints.induct) (simp_all add: basicLatin_no_surrogate)

lemma lowerFrom_basicLatin:
  "list_all (\<lambda>c. c < 0x80) cps \<Longrightarrow> lowerFrom prev cps = map lowerCodePoint cps"
  by (induction cps arbitrary: prev) auto

lemma codeUnits_lower_basicLatin:
  "(c :: jschar) < 0x80 \<Longrightarrow> codeUnits (lowerCodePoint (unat c)) = [lowerChar c]"
  by (simp add: codeUnits_def lowerCodePoint_def lowerChar_def word_less_nat_alt word_le_nat_alt)

lemma toLowerCase_basicLatin: "isBasicLatin s \<Longrightarrow> toLowerCase s = map lowerChar s"
proof -
  assume a: "isBasicLatin s"
  then have l: "list_all (\<lambda>c. c < 0x80) s" by (simp add: isBasicLatin_def)
  have u: "list_all (\<lambda>c. c < 0x80) (map unat s)"
    using l by (induction s) (simp_all add: basicLatin_unat)
  have "concat (map codeUnits (map lowerCodePoint (map unat s))) = map lowerChar s"
    using l by (induction s) (simp_all add: codeUnits_lower_basicLatin)
  then show ?thesis
    by (simp add: toLowerCase_def CodePointsToString_def StringToCodePoints_basicLatin [OF l]
          lowerFrom_basicLatin [OF u])
qed

lemma toLowerCase_Nil [simp]: "toLowerCase [] = []"
  by (simp add: toLowerCase_def CodePointsToString_def)

subsection \<open>The header check of the parsers\<close>

lemma andThen_Inl [simp]: "andThen (Inl e) k = Inl e"
  by (simp add: andThen_def)

lemma andThen_Inr [simp]: "andThen (Inr x) k = k x"
  by (simp add: andThen_def)

lemma findIndex_ge_minus1: "-1 \<le> findIndex p xs"
  by (induction xs) (auto simp: Let_def)

lemma findIndex_nonneg: "0 \<le> findIndex p xs \<longleftrightarrow> (\<exists>x \<in> set xs. p x)"
  by (induction xs) (auto simp: Let_def)

lemma js_append: "js a @ js b = js (a @ b)"
  by (simp add: js_def)

lemma assert_andThen:
  "andThen (assert c m) k = (if c then k () else Inl (Error (js ''Test failed: '' @ m)))"
  by (simp add: assert_def)

lemma required_found:
  "(0 \<le> idI (headerColumns (\<lambda>k. findIndex (\<lambda>h. toLowerCase h = k) cells)) \<and>
    0 \<le> nameI (headerColumns (\<lambda>k. findIndex (\<lambda>h. toLowerCase h = k) cells)) \<and>
    0 \<le> latI (headerColumns (\<lambda>k. findIndex (\<lambda>h. toLowerCase h = k) cells)) \<and>
    0 \<le> lngI (headerColumns (\<lambda>k. findIndex (\<lambda>h. toLowerCase h = k) cells)))
   = hasRequired cells"
  by (simp add: headerColumns_def findIndex_nonneg hasRequired_def hasColumn_def)

lemma parseCSV_cases:
  "parseCSV text =
     (case headerRow text of
        None \<Rightarrow> Inr []
      | Some h \<Rightarrow>
          if hasRequired (headerCells h)
          then Inr (parseRows (headerColumns (\<lambda>k. findIndex (\<lambda>x. toLowerCase x = k) (headerCells h)))
                      (drop 1 (filter (\<lambda>l. trim l \<noteq> []) (splitLines text))) [])
          else Inl HEADER_ERROR)"
proof (cases "filter (\<lambda>l. trim l \<noteq> []) (splitLines text)")
  case Nil
  then show ?thesis by (simp add: parseCSV_def headerRow_def)
next
  case (Cons l ls)
  then have L: "filter (\<lambda>l. length (trim l) > 0) (splitLines text) = l # ls"
    by simp
  show ?thesis
    apply (simp only: parseCSV_def Let_def L)
    apply (simp only: nth_Cons_0 assert_andThen headerCells_def [symmetric] required_found)
    apply (simp add: headerRow_def Cons HEADER_ERROR_def js_append)
    done
qed

lemmas string_eval =
  js_def trim_def isWhiteSpace_def toLowerCase_basicLatin isBasicLatin_def lowerChar_def
  Spec2Isabelle.split_def
  splitLines_def isComma_def isTagSep_def LF_def CR_def COMMA_def DQUOTE_def SPACE_def

lemmas header_eval =
  headerRow_def headerCells_def hasRequired_def hasColumn_def

text \<open>
  Claim C10. When the first non-blank line of the text, split on commas and trimmed,
  names the columns \<open>id\<close>, \<open>name\<close>, \<open>lat\<close> and \<open>lng\<close>, the parser that splits on
  commas returns a record list, whatever the rows hold; and whenever it throws, what it
  throws is the header error, on a header row that lacks a required column.
\<close>

theorem parseCSV_total:
  "(headerRow text = Some h \<longrightarrow> hasRequired (headerCells h) \<longrightarrow> (\<exists>cs. parseCSV text = Inr cs)) \<and>
   (parseCSV text = Inl e \<longrightarrow>
      e = HEADER_ERROR \<and> (\<exists>h. headerRow text = Some h \<and> \<not> hasRequired (headerCells h)))"
  by (auto simp add: parseCSV_cases split: option.splits if_splits)

text \<open>A blank first line, then a header in mixed case with padded cells, then a short row.\<close>

theorem parseCSV_total_witness:
  "headerRow ([LF] @ js ''ID, name ,Lat,LNG'' @ [LF] @ js ''x'') = Some (js ''ID, name ,Lat,LNG'') \<and>
   hasRequired (headerCells (js ''ID, name ,Lat,LNG'')) \<and>
   (\<exists>cs. parseCSV ([LF] @ js ''ID, name ,Lat,LNG'' @ [LF] @ js ''x'') = Inr cs)"
proof -
  have a: "headerRow ([LF] @ js ''ID, name ,Lat,LNG'' @ [LF] @ js ''x'') = Some (js ''ID, name ,Lat,LNG'')"
    by (simp add: string_eval header_eval)
  have b: "hasRequired (headerCells (js ''ID, name ,Lat,LNG''))"
    by (simp add: string_eval header_eval)
  show ?thesis
    using parseCSV_total [of "[LF] @ js ''ID, name ,Lat,LNG'' @ [LF] @ js ''x''" "js ''ID, name ,Lat,LNG''"]
      a b by simp
qed

text \<open>
  Claim C8. On the empty text the parser that splits on commas returns the empty record
  list, and the parser that honours quotes throws a TypeError, since \<open>rows\<close> is empty
  and \<open>rows[0]\<close> is \<open>undefined\<close>.
\<close>

theorem parseCSV_q_empty_throws:
  "parseCSV [] = Inr [] \<and>
   parseCSV_q [] = Inl (TypeError (js ''Cannot read properties of undefined (reading 'split')''))"
  by (simp add: parseCSV_def parseCSV_q_def splitLines_def trim_def)

subsection \<open>The validator\<close>






subsection \<open>The handlers\<close>






subsection \<open>The sample table, evaluated\<close>

lemmas sample_defs = sampleText_def sampleHeader_def sampleRow1_def sampleRow2_def

lemmas number_eval =
  Number_def unsignedDecimal_def radixLiteral_def exponentPart_def scale10_def isDigit_def
  hexVal_def

lemma sample_splitLines: "splitLines sampleText = [sampleHeader, sampleRow1, sampleRow2]"
  by (simp add: sample_defs js_def splitLines_def LF_def CR_def)

lemma sample_scanRows: "scanRows False [] sampleText = [sampleHeader, sampleRow1, sampleRow2]"
  by (simp add: sample_defs js_def LF_def DQUOTE_def trim_def isWhiteSpace_def)

lemma sample_nonblank:
  "trim sampleHeader \<noteq> []" "trim sampleRow1 \<noteq> []" "trim sampleRow2 \<noteq> []"
  by (simp_all add: sample_defs js_def trim_def isWhiteSpace_def)

lemma sample_header_cells:
  "split isComma sampleHeader = [js ''id'', js ''name'', js ''lat'', js ''lng'']"
  by (simp add: sample_defs js_def Spec2Isabelle.split_def isComma_def COMMA_def)

lemma sample_row1_cells:
  "split isComma sampleRow1 = [js ''c1'', js ''A'', js ''37.5'', js ''127'']"
  by (simp add: sample_defs js_def Spec2Isabelle.split_def isComma_def COMMA_def)

lemma sample_row2_cells:
  "split isComma sampleRow2 = [js ''c2'', js ''B'', [], js ''127'']"
  by (simp add: sample_defs js_def Spec2Isabelle.split_def isComma_def COMMA_def)

lemma sample_row1_splitRow:
  "splitRow sampleRow1 = [js ''c1'', js ''A'', js ''37.5'', js ''127'']"
  by (simp add: sample_defs js_def splitRow_def DQUOTE_def COMMA_def trim_def isWhiteSpace_def)

lemma sample_row2_splitRow:
  "splitRow sampleRow2 = [js ''c2'', js ''B'', [], js ''127'']"
  by (simp add: sample_defs js_def splitRow_def DQUOTE_def COMMA_def trim_def isWhiteSpace_def)

lemma sample_trims:
  "trim (js ''id'') = js ''id''" "trim (js ''name'') = js ''name''"
  "trim (js ''lat'') = js ''lat''" "trim (js ''lng'') = js ''lng''"
  "trim (js ''c1'') = js ''c1''" "trim (js ''c2'') = js ''c2''"
  "trim (js ''A'') = js ''A''" "trim (js ''B'') = js ''B''"
  "trim (js ''37.5'') = js ''37.5''" "trim (js ''127'') = js ''127''" "trim [] = []"
  by (simp_all add: js_def trim_def isWhiteSpace_def)

lemma sample_numbers:
  "Number (js ''37.5'') = Fin 37.5" "Number (js ''127'') = Fin 127" "Number [] = Fin 0"
  by (simp_all add: number_eval js_def trim_def isWhiteSpace_def)

lemma sample_lower:
  "toLowerCase (js ''id'') = js ''id''" "toLowerCase (js ''name'') = js ''name''"
  "toLowerCase (js ''lat'') = js ''lat''" "toLowerCase (js ''lng'') = js ''lng''"
  by (simp_all add: js_def toLowerCase_basicLatin isBasicLatin_def lowerChar_def)

lemma sample_columns:
  "headerColumns (\<lambda>k. findIndex (\<lambda>h. toLowerCase h = k)
     (map trim (split isComma sampleHeader))) = sampleIx"
  by (simp add: sample_header_cells sample_trims headerColumns_def sampleIx_def sample_lower)
     (simp add: js_def)

lemma sample_columns_q:
  "headerColumns (\<lambda>k. findIndex (\<lambda>h. h = k)
     (map (\<lambda>h. toLowerCase (trim h)) (split isComma sampleHeader))) = sampleIx"
  by (simp add: sample_header_cells sample_trims headerColumns_def sampleIx_def sample_lower)
     (simp add: js_def)

lemma sample_row1_center:
  "rowCenter sampleIx [js ''c1'', js ''A'', js ''37.5'', js ''127''] = sampleC1"
  "rowCenter_q sampleIx [js ''c1'', js ''A'', js ''37.5'', js ''127''] = sampleC1"
  by (simp_all add: rowCenter_def rowCenter_q_def get_def val_def sampleIx_def sampleC1_def
        sample_trims sample_numbers Spec2Isabelle.split_def)

lemma sample_row2_center:
  "rowCenter sampleIx [js ''c2'', js ''B'', [], js ''127''] = sampleC2"
  "rowCenter_q sampleIx [js ''c2'', js ''B'', [], js ''127''] = sampleC2"
  by (simp_all add: rowCenter_def rowCenter_q_def get_def val_def sampleIx_def sampleC2_def
        sample_trims sample_numbers Spec2Isabelle.split_def)

lemma sample_parse: "parseCSV sampleText = Inr [sampleC1, sampleC2]"
  apply (simp only: parseCSV_def Let_def sample_splitLines)
  apply (simp add: sample_nonblank sample_columns assert_def
      sample_row1_cells sample_row2_cells sample_row1_center sample_row2_center
      del: findIndex.simps)
  apply (simp add: sampleIx_def)
  done

lemma sample_parse_q: "parseCSV_q sampleText = Inr [sampleC1, sampleC2]"
  apply (simp only: parseCSV_q_def Let_def sample_scanRows)
  apply (simp add: sample_nonblank sample_columns_q
      assert_def sample_row1_splitRow sample_row2_splitRow sample_row1_center sample_row2_center
      del: findIndex.simps)
  apply (simp add: sampleIx_def)
  done


lemma sample_validate_none: "validateCenters [sampleC1, sampleC2] None = Inr ()"
  by (simp add: sampleC1_def sampleC2_def validateCenter_def assert_def isNaN_def js_def)






text \<open>
  Claim C7. The row \<open>c2,B,,127\<close> has an empty \<open>lat\<close> cell. Both parsers give the
  record the latitude \<open>0\<close>, and the validator without a bound accepts the batch.
\<close>

theorem empty_lat_cell_accepted:
  "split isComma sampleRow2 = [js ''c2'', js ''B'', [], js ''127''] \<and>
   parseCSV sampleText = Inr [sampleC1, sampleC2] \<and>
   parseCSV_q sampleText = Inr [sampleC1, sampleC2] \<and>
   lat sampleC2 = Fin 0 \<and>
   validateCenters [sampleC1, sampleC2] None = Inr ()"
  by (simp only: sample_row2_cells sample_parse sample_parse_q sample_validate_none simp_thms)
     (simp add: sampleC2_def)

subsection \<open>The category of a record\<close>

lemma hasTag_iff: "hasTag c t \<longleftrightarrow> t \<in> trim ` set (tagsOf c)"
  by (auto simp add: hasTag_def list_ex_iff)

lemma trim_literals: "trim PRACTICAL = PRACTICAL" "trim WRITTEN = WRITTEN"
  by (simp_all add: trim_def isWhiteSpace_def PRACTICAL_def WRITTEN_def)

lemma literal_in_trimmed:
  "PRACTICAL \<in> set ts \<Longrightarrow> PRACTICAL \<in> trim ` set ts"
  "WRITTEN \<in> set ts \<Longrightarrow> WRITTEN \<in> trim ` set ts"
  using trim_literals by (metis image_eqI)+

lemma trimmed_tags_image: "\<forall>t \<in> set ts. trim t = t \<Longrightarrow> trim ` set ts = set ts"
  by (induction ts) auto

text \<open>
  Claim C2, as stated, fails: a record whose only tag is the written literal with a
  space before it is classified written, although its tag list holds neither literal.
\<close>

theorem examType_spec_counterexample:
  "examType paddedWritten = WRITTEN \<and> examType_spec paddedWritten = OTHER \<and>
   examType paddedWritten \<noteq> examType_spec paddedWritten"
  by (simp add: examType_def examType_spec_def hasTag_def tagsOf_def paddedWritten_def tagged_def
        trim_def isWhiteSpace_def PRACTICAL_def WRITTEN_def OTHER_def SPACE_def)

text \<open>
  Claim C2, amended. The category of a record is the practical value when a tag equals
  the practical literal after trimming, otherwise the written value when a tag equals
  the written literal after trimming, otherwise the residual value. A record that holds
  the practical literal is practical, whatever else it holds. For a record whose tags
  have no white space around them the category is the one by membership of the
  literals. The features of the projection carry this category.
\<close>

theorem examType_priority:
  "examType c = examType_trimmed c \<and>
   (PRACTICAL \<in> set (tagsOf c) \<longrightarrow> examType c = PRACTICAL) \<and>
   ((\<forall>t \<in> set (tagsOf c). trim t = t) \<longrightarrow> examType c = examType_spec c) \<and>
   map f_examType (geojson flt) = map examType_trimmed flt"
proof -
  have a: "examType c = examType_trimmed c" for c
    by (simp add: examType_def examType_trimmed_def hasTag_iff)
  have b: "PRACTICAL \<in> set (tagsOf c) \<longrightarrow> examType c = PRACTICAL"
    using literal_in_trimmed(1) [of "tagsOf c"] by (auto simp add: a examType_trimmed_def)
  have c: "(\<forall>t \<in> set (tagsOf c). trim t = t) \<longrightarrow> examType c = examType_spec c"
    using trimmed_tags_image [of "tagsOf c"]
    by (auto simp add: a examType_trimmed_def examType_spec_def)
  have d: "map f_examType (geojson flt) = map examType_trimmed flt"
    by (simp add: geojson_def feature_def a)
  from a b c d show ?thesis by blast
qed

text \<open>A record with the written tag first and the practical tag second is practical.\<close>

theorem examType_priority_witness:
  "PRACTICAL \<in> set (tagsOf bothTags) \<and> WRITTEN \<in> set (tagsOf bothTags) \<and>
   examType bothTags = PRACTICAL"
proof -
  have m: "PRACTICAL \<in> set (tagsOf bothTags) \<and> WRITTEN \<in> set (tagsOf bothTags)"
    by (simp add: bothTags_def tagged_def tagsOf_def)
  then show ?thesis using examType_priority [of bothTags "[]"] by blast
qed

subsection \<open>The filters\<close>


lemma list_ex_inter: "list_ex (\<lambda>t. t \<in> set as) ts \<longleftrightarrow> set ts \<inter> set as \<noteq> {}"
  by (auto simp add: list_ex_iff)

text \<open>
  Claim C3. When at least one tag is active, the filtered list is the list of the
  records passing the free-text filter whose tag list has an element in common with the
  active tags.
\<close>

theorem tag_filter_any:
  "act \<noteq> [] \<Longrightarrow>
   filtered cs q act = filter (\<lambda>c. set (tagsOf c) \<inter> set act \<noteq> {}) (filtered cs q [])"
  by (simp add: filtered_def Let_def list_ex_inter)

text \<open>With two active tags, a record that carries one of them is kept, the other record is dropped.\<close>

theorem tag_filter_any_witness:
  "[js ''x'', js ''z''] \<noteq> [] \<and>
   filtered [tagA, tagB] [] [js ''x'', js ''z''] = [tagA]"
proof -
  have n: "[js ''x'', js ''z''] \<noteq> ([] :: jsstring list)" by simp
  have "filtered [tagA, tagB] [] [js ''x'', js ''z''] =
      filter (\<lambda>c. set (tagsOf c) \<inter> set [js ''x'', js ''z''] \<noteq> {}) (filtered [tagA, tagB] [] [])"
    using tag_filter_any [OF n] by blast
  then show ?thesis
    by (simp add: filtered_def Let_def trim_def tagA_def tagB_def tagged_def
          tagsOf_def js_def)
qed










subsection \<open>The two parsers on texts without quotes\<close>

lemma trim_Nil [simp]: "trim [] = []"
  by (simp add: trim_def)

lemma trim_idem: "trim (trim s) = trim s"
proof -
  define t where "t = dropWhile isWhiteSpace s"
  define x where "x = rev (dropWhile isWhiteSpace (rev t))"
  have tx: "trim s = x" by (simp add: trim_def t_def x_def)
  have pre: "t = x @ rev (takeWhile isWhiteSpace (rev t))"
    unfolding x_def by (metis rev_append rev_rev_ident takeWhile_dropWhile_id)
  have front: "dropWhile isWhiteSpace x = x"
  proof (cases x)
    case Nil
    then show ?thesis by simp
  next
    case (Cons a as)
    then have "t = (a # as) @ rev (takeWhile isWhiteSpace (rev t))" using pre by simp
    then have "t \<noteq> []" and "hd t = a"
      by (metis append_Cons list.distinct(1), metis append_Cons list.sel(1))
    then have "\<not> isWhiteSpace a" using hd_dropWhile [of isWhiteSpace s] by (simp add: t_def)
    then show ?thesis using Cons by simp
  qed
  have rear: "dropWhile isWhiteSpace (rev x) = rev x"
    by (simp add: x_def)
  show ?thesis
    unfolding tx by (simp add: trim_def front rear)
qed

lemma splitAcc_nonempty [simp]: "splitAcc p acc s \<noteq> []"
  by (induction s arbitrary: acc) auto

lemma hd_splitAcc: "hd (splitAcc p acc s) = rev acc @ takeWhile (\<lambda>c. \<not> p c) s"
  by (induction s arbitrary: acc) auto

lemma splitAcc_chars: "x \<in> set (splitAcc p acc s) \<Longrightarrow> set x \<subseteq> set acc \<union> set s"
proof (induction s arbitrary: acc)
  case Nil
  then show ?case by simp
next
  case (Cons c cs)
  show ?case
  proof (cases "p c")
    case True
    then have "x = rev acc \<or> x \<in> set (splitAcc p [] cs)" using Cons.prems by simp
    then show ?thesis using Cons.IH [of "[]"] by auto
  next
    case False
    then have "x \<in> set (splitAcc p (c # acc) cs)" using Cons.prems by simp
    then show ?thesis using Cons.IH [of "c # acc"] by auto
  qed
qed

lemma splitAcc_single: "length (splitAcc p acc s) = 1 \<Longrightarrow> splitAcc p acc s = [rev acc @ s]"
proof (induction s arbitrary: acc)
  case Nil
  then show ?case by simp
next
  case (Cons c cs)
  show ?case
  proof (cases "p c")
    case True
    then show ?thesis using Cons.prems by simp
  next
    case False
    then show ?thesis using Cons.prems Cons.IH [of "c # acc"] by simp
  qed
qed

lemma splitLinesAcc_crlfFree:
  "crlfFree s \<Longrightarrow> splitLinesAcc cur s = splitAcc (\<lambda>c. c = LF) cur s"
  by (induction cur s rule: splitLinesAcc.induct) auto

lemma dropBlankLast_Cons:
  "ys \<noteq> [] \<Longrightarrow> dropBlankLast (x # ys) = x # dropBlankLast ys"
  by (simp add: dropBlankLast_def)

lemma scanRows_noquote:
  "DQUOTE \<notin> set s \<Longrightarrow>
   scanRows False cur s = dropBlankLast (splitAcc (\<lambda>c. c = LF) (rev cur) s)"
proof (induction s arbitrary: cur)
  case Nil
  then show ?case by (simp add: dropBlankLast_def)
next
  case (Cons ch rest)
  then have nq: "ch \<noteq> DQUOTE" "DQUOTE \<notin> set rest" by auto
  show ?case
  proof (cases "ch = LF")
    case True
    then show ?thesis
      using nq Cons.IH [of "[]"] by (simp add: dropBlankLast_Cons)
  next
    case False
    then show ?thesis
      using nq Cons.IH [of "cur @ [ch]"] by simp
  qed
qed

lemma splitRowAcc_noquote:
  "DQUOTE \<notin> set r \<Longrightarrow>
   splitRowAcc False cell r = map trim (splitAcc isComma (rev cell) r)"
proof (induction r arbitrary: cell)
  case Nil
  then show ?case by simp
next
  case (Cons ch rest)
  then have nq: "ch \<noteq> DQUOTE" "DQUOTE \<notin> set rest" by auto
  show ?case
  proof (cases "ch = COMMA")
    case True
    then show ?thesis
      using nq Cons.IH [of "[]"] by (simp add: isComma_def)
  next
    case False
    then show ?thesis
      using nq Cons.IH [of "cell @ [ch]"] by (simp add: isComma_def)
  qed
qed

lemma findIndex_map: "findIndex (\<lambda>h. f h = k) xs = findIndex (\<lambda>h. h = k) (map f xs)"
  by (induction xs) (simp_all add: Let_def)

lemma get_val: "get cells i = val (map trim cells) i"
  by (simp add: get_def val_def trim_idem)

lemma split_Nil: "split p [] = [[]]"
  by (simp add: Spec2Isabelle.split_def)

lemma rowCenter_eq: "rowCenter ix cells = rowCenter_q ix (map trim cells)"
  by (simp add: rowCenter_def rowCenter_q_def Let_def get_val [symmetric] split_Nil)

lemma splitRow_noquote: "DQUOTE \<notin> set r \<Longrightarrow> splitRow r = map trim (split isComma r)"
  by (simp add: splitRow_def Spec2Isabelle.split_def splitRowAcc_noquote)

lemma split_single_nonblank:
  "trim r \<noteq> [] \<Longrightarrow> \<not> (length (split isComma r) = 1 \<and> trim (split isComma r ! 0) = [])"
proof
  assume nb: "trim r \<noteq> []" and "length (split isComma r) = 1 \<and> trim (split isComma r ! 0) = []"
  then have one: "length (splitAcc isComma [] r) = 1" and e: "trim (splitAcc isComma [] r ! 0) = []"
    by (simp_all add: Spec2Isabelle.split_def)
  have "splitAcc isComma [] r = [r]" using splitAcc_single [OF one] by simp
  then show False using e nb by simp
qed

lemma parseRows_eq:
  "\<forall>r \<in> set rs. DQUOTE \<notin> set r \<Longrightarrow>
   parseRows_q ix rs out = parseRows ix (filter (\<lambda>l. trim l \<noteq> []) rs) out"
proof (induction rs arbitrary: out)
  case Nil
  then show ?case by simp
next
  case (Cons r rs)
  then have nq: "DQUOTE \<notin> set r" and rest: "\<forall>r \<in> set rs. DQUOTE \<notin> set r" by auto
  show ?case
  proof (cases "trim r = []")
    case True
    then show ?thesis using Cons.IH [OF rest] by simp
  next
    case False
    have "parseRows_q ix (r # rs) out = parseRows_q ix rs (out @ [rowCenter_q ix (splitRow r)])"
      using False by simp
    also have "\<dots> = parseRows ix (filter (\<lambda>l. trim l \<noteq> []) rs)
        (out @ [rowCenter ix (split isComma r)])"
      using Cons.IH [OF rest] by (simp add: splitRow_noquote [OF nq] rowCenter_eq)
    also have "\<dots> = parseRows ix (filter (\<lambda>l. trim l \<noteq> []) (r # rs)) out"
      using False split_single_nonblank [OF False] by (auto simp add: Let_def)
    finally show ?thesis .
  qed
qed

lemma filter_dropBlankLast:
  "filter (\<lambda>l. trim l \<noteq> []) (dropBlankLast ps) = filter (\<lambda>l. trim l \<noteq> []) ps"
proof (cases "ps = []")
  case True
  then show ?thesis by (simp add: dropBlankLast_def)
next
  case False
  then have "ps = butlast ps @ [last ps]" by simp
  then have "filter (\<lambda>l. trim l \<noteq> []) ps =
      filter (\<lambda>l. trim l \<noteq> []) (butlast ps) @ filter (\<lambda>l. trim l \<noteq> []) [last ps]"
    by (metis filter_append)
  then show ?thesis using False by (simp add: dropBlankLast_def)
qed

lemma set_dropBlankLast: "set (dropBlankLast ps) \<subseteq> set ps"
proof (cases "ps = []")
  case True
  then show ?thesis by (simp add: dropBlankLast_def)
next
  case False
  then have "ps = butlast ps @ [last ps]" by simp
  then have "set (butlast ps) \<subseteq> set ps" "last ps \<in> set ps"
    by (metis in_set_butlastD subsetI, simp add: False)
  then show ?thesis using False by (auto simp add: dropBlankLast_def)
qed

lemma dropBlankLast_head:
  "trim p0 \<noteq> [] \<Longrightarrow> dropBlankLast (p0 # rest) = p0 # dropBlankLast rest"
  by (cases "rest = []") (simp_all add: dropBlankLast_def)

lemma headerColumns_q:
  "headerColumns (\<lambda>k. findIndex (\<lambda>h. h = k) (map (\<lambda>h. toLowerCase (trim h)) xs)) =
   headerColumns (\<lambda>k. findIndex (\<lambda>h. toLowerCase h = k) (map trim xs))"
proof -
  have "map (\<lambda>h. toLowerCase (trim h)) xs = map toLowerCase (map trim xs)" by simp
  then show ?thesis by (simp only: findIndex_map [of toLowerCase _ "map trim xs"])
qed

text \<open>
  Claim C9. On a text with no double quote, where no carriage return stands before a
  line feed, and whose first line is not blank, the parser that splits on commas and
  the parser that honours quotes return the same result.
\<close>

theorem parsers_agree:
  assumes nq: "DQUOTE \<notin> set input"
    and lf: "crlfFree input"
    and nb: "trim (firstLine input) \<noteq> []"
  shows "parseCSV input = parseCSV_q input"
proof -
  define ps where "ps = splitAcc (\<lambda>c. c = LF) [] input"
  have "ps \<noteq> []" by (simp add: ps_def)
  then obtain p0 rest where ps: "ps = p0 # rest" by (cases ps) auto
  have "hd ps = firstLine input"
    using hd_splitAcc [of "\<lambda>c. c = LF" "[]" input] by (simp add: ps_def firstLine_def)
  then have p0: "trim p0 \<noteq> []" using nb ps by simp
  have sl: "splitLines input = p0 # rest"
    using splitLinesAcc_crlfFree [OF lf, of "[]"] by (simp add: splitLines_def ps_def [symmetric] ps)
  have sr: "scanRows False [] input = p0 # dropBlankLast rest"
    using scanRows_noquote [OF nq, of "[]"] dropBlankLast_head [OF p0]
    by (simp add: ps_def [symmetric] ps)
  have rows_nq: "\<forall>r \<in> set (dropBlankLast rest). DQUOTE \<notin> set r"
  proof
    fix r assume "r \<in> set (dropBlankLast rest)"
    then have "r \<in> set (splitAcc (\<lambda>c. c = LF) [] input)"
      using set_dropBlankLast [of rest] ps by (auto simp add: ps_def)
    then have "set r \<subseteq> set input" using splitAcc_chars by fastforce
    then show "DQUOTE \<notin> set r" using nq by auto
  qed
  define ix where
    "ix = headerColumns (\<lambda>k. findIndex (\<lambda>h. toLowerCase h = k) (map trim (split isComma p0)))"
  have rows: "parseRows_q ix (dropBlankLast rest) [] =
      parseRows ix (filter (\<lambda>l. trim l \<noteq> []) rest) []"
    using parseRows_eq [OF rows_nq] by (simp add: filter_dropBlankLast)
  have a: "parseCSV input =
      andThen (assert (idI ix \<ge> 0 \<and> nameI ix \<ge> 0 \<and> latI ix \<ge> 0 \<and> lngI ix \<ge> 0)
                (js ''CSV header must include id,name,lat,lng''))
        (\<lambda>_. Inr (parseRows ix (filter (\<lambda>l. trim l \<noteq> []) rest) []))"
    unfolding parseCSV_def Let_def sl by (simp add: p0 ix_def)
  have b: "parseCSV_q input =
      andThen (assert (idI ix \<ge> 0 \<and> nameI ix \<ge> 0 \<and> latI ix \<ge> 0 \<and> lngI ix \<ge> 0)
                (js ''CSV header must include id,name,lat,lng''))
        (\<lambda>_. Inr (parseRows_q ix (dropBlankLast rest) []))"
    unfolding parseCSV_q_def Let_def sr list.case headerColumns_q by (simp add: ix_def)
  show ?thesis by (simp only: a b rows)
qed

text \<open>The two parsers agree on the sample with a blank line and a comma among the tags.\<close>

theorem parsers_agree_witness:
  "DQUOTE \<notin> set sampleTagged \<and> crlfFree sampleTagged \<and> trim (firstLine sampleTagged) \<noteq> [] \<and>
   parseCSV sampleTagged = parseCSV_q sampleTagged"
proof -
  have a: "DQUOTE \<notin> set sampleTagged"
    by (simp add: sampleTagged_def js_def DQUOTE_def LF_def)
  have b: "crlfFree sampleTagged"
    by (simp add: sampleTagged_def js_def CR_def LF_def)
  have c: "trim (firstLine sampleTagged) \<noteq> []"
    by (simp add: sampleTagged_def firstLine_def js_def LF_def trim_def isWhiteSpace_def)
  show ?thesis using parsers_agree [OF a b c] a b c by blast
qed

subsection \<open>The header check on a quoted header and after a blank line\<close>

lemmas variant_defs =
  blankFirst_def quotedFirst_def quotedHeader_def mixedHeader_def sampleHeader_def sampleRow1_def

lemma blankFirst_lines: "splitLines blankFirst = [[], mixedHeader, sampleRow1]"
  by (simp add: variant_defs js_def splitLines_def LF_def CR_def)

lemma blankFirst_rows: "scanRows False [] blankFirst = [[], mixedHeader, sampleRow1]"
  by (simp add: variant_defs js_def LF_def DQUOTE_def trim_def isWhiteSpace_def)

lemma quotedFirst_lines: "splitLines quotedFirst = [quotedHeader, sampleRow1]"
  by (simp add: variant_defs js_def splitLines_def LF_def CR_def DQUOTE_def)

lemma quotedFirst_rows: "scanRows False [] quotedFirst = [sampleHeader, sampleRow1]"
  by (simp add: variant_defs js_def LF_def DQUOTE_def trim_def isWhiteSpace_def)

lemma mixedHeader_nonblank: "trim mixedHeader \<noteq> []" "trim quotedHeader \<noteq> []"
  by (simp_all add: variant_defs js_def trim_def isWhiteSpace_def DQUOTE_def)

lemma mixedHeader_cells:
  "map trim (split isComma mixedHeader) = [js ''ID'', js ''Name'', js ''lat'', js ''lng'']"
  by (simp add: variant_defs js_def Spec2Isabelle.split_def isComma_def COMMA_def trim_def
        isWhiteSpace_def)

lemma quotedHeader_cells:
  "map trim (split isComma quotedHeader) =
     [js ''id'', js ''name'', DQUOTE # js ''lat'', js ''lng'' @ [DQUOTE]]"
  by (simp add: variant_defs js_def Spec2Isabelle.split_def isComma_def COMMA_def trim_def
        isWhiteSpace_def DQUOTE_def)

lemma quotedHeader_splitRow:
  "splitRow quotedHeader = [js ''id'', js ''name'', js ''lat,lng'']"
  by (simp add: variant_defs js_def splitRow_def DQUOTE_def COMMA_def trim_def isWhiteSpace_def)

lemma mixed_lower:
  "toLowerCase (js ''ID'') = js ''id''" "toLowerCase (js ''Name'') = js ''name''"
  "toLowerCase (DQUOTE # js ''lat'') = DQUOTE # js ''lat''"
  "toLowerCase (js ''lng'' @ [DQUOTE]) = js ''lng'' @ [DQUOTE]"
  by (simp_all add: js_def toLowerCase_basicLatin isBasicLatin_def lowerChar_def DQUOTE_def)

lemma mixedHeader_columns:
  "headerColumns (\<lambda>k. findIndex (\<lambda>h. toLowerCase h = k)
     (map trim (split isComma mixedHeader))) = sampleIx"
  by (simp add: mixedHeader_cells headerColumns_def sampleIx_def sample_lower mixed_lower)
     (simp add: js_def)

lemma mixedHeader_required: "hasRequired (headerCells mixedHeader)"
  by (simp add: headerCells_def mixedHeader_cells hasRequired_def hasColumn_def sample_lower
        mixed_lower)

lemma quotedHeader_not_required: "\<not> hasRequired (headerCells quotedHeader)"
  by (simp add: headerCells_def quotedHeader_cells hasRequired_def hasColumn_def sample_lower
        mixed_lower)
     (simp add: js_def DQUOTE_def)

lemma blankFirst_header: "headerRow blankFirst = Some mixedHeader"
  by (simp add: headerRow_def blankFirst_lines mixedHeader_nonblank)

lemma quotedFirst_header: "headerRow quotedFirst = Some quotedHeader"
  by (simp add: headerRow_def quotedFirst_lines mixedHeader_nonblank)

lemma blankFirst_parse: "parseCSV blankFirst = Inr [sampleC1]"
  apply (simp only: parseCSV_def Let_def blankFirst_lines)
  apply (simp add: sample_nonblank mixedHeader_nonblank mixedHeader_columns assert_def
      sample_row1_cells sample_row1_center del: findIndex.simps)
  apply (simp add: sampleIx_def)
  done

lemma blankFirst_parse_q: "parseCSV_q blankFirst = Inl HEADER_ERROR"
  apply (simp only: parseCSV_q_def Let_def blankFirst_rows list.case)
  apply (simp add: Spec2Isabelle.split_def headerColumns_def assert_def HEADER_ERROR_def js_append)
  apply (simp add: js_def)
  done

lemma quotedFirst_parse: "parseCSV quotedFirst = Inl HEADER_ERROR"
  using quotedFirst_header quotedHeader_not_required
  by (simp add: parseCSV_cases)

lemma quotedFirst_parse_q: "parseCSV_q quotedFirst = Inr [sampleC1]"
  apply (simp only: parseCSV_q_def Let_def quotedFirst_rows list.case)
  apply (simp add: sample_nonblank sample_columns_q assert_def sample_row1_splitRow
      sample_row1_center del: findIndex.simps)
  apply (simp add: sampleIx_def)
  done

text \<open>
  Claim C5. The header row \<open>id,name,"lat,lng"\<close> has no column \<open>lat\<close> and no column
  \<open>lng\<close>: its third cell is \<open>lat,lng\<close>. The parser that splits on commas throws the
  header error on it; the parser that honours quotes drops the quotes while it scans the
  rows, finds four columns and returns a record. After a blank line, on the header row
  \<open>ID,Name,lat,lng\<close>, which has the four columns, the parser that splits on commas
  returns the record, and the parser that honours quotes takes the blank row as header
  and throws the header error.
\<close>

theorem header_check_variant_diverges:
  "headerRow quotedFirst = Some quotedHeader \<and>
   splitRow quotedHeader = [js ''id'', js ''name'', js ''lat,lng''] \<and>
   \<not> hasRequired (headerCells quotedHeader) \<and>
   parseCSV quotedFirst = Inl HEADER_ERROR \<and>
   parseCSV_q quotedFirst = Inr [sampleC1] \<and>
   headerRow blankFirst = Some mixedHeader \<and>
   hasRequired (headerCells mixedHeader) \<and>
   parseCSV blankFirst = Inr [sampleC1] \<and>
   parseCSV_q blankFirst = Inl HEADER_ERROR"
  by (simp only: quotedFirst_header quotedHeader_splitRow quotedHeader_not_required
        quotedFirst_parse quotedFirst_parse_q blankFirst_header mixedHeader_required
        blankFirst_parse blankFirst_parse_q simp_thms)

end
